theory Spec2Isabelle
  imports Complex_Main
begin

section \<open>Python values and errors\<close>

text \<open>
  The notebooks define PyTorch modules. Every exception a constructor or a forward pass
  can raise is a value of \<open>py_error\<close>; a fallible computation returns
  \<open>py_error + 'a\<close> with \<open>Inl\<close> the exception.
\<close>

datatype py_error =
    AttributeError
  | TypeError
  | ValueError
  | IndexError
  | AssertionError
  | ZeroDivisionError
  | RuntimeError

definition then_do :: "py_error + 'a \<Rightarrow> ('a \<Rightarrow> py_error + 'b) \<Rightarrow> py_error + 'b" where
  "then_do r f = (case r of Inl e \<Rightarrow> Inl e | Inr v \<Rightarrow> f v)"

fun sequence_err :: "(py_error + 'a) list \<Rightarrow> py_error + 'a list" where
  "sequence_err [] = Inr []"
| "sequence_err (r # rs) =
     (case r of
        Inl e \<Rightarrow> Inl e
      | Inr v \<Rightarrow> (case sequence_err rs of Inl e \<Rightarrow> Inl e | Inr vs \<Rightarrow> Inr (v # vs)))"

section \<open>Tensor elements\<close>

text \<open>
  A tensor element is a float, idealised: a real number, an infinity or NaN. Rounding,
  overflow and the sign of zero are left out; the special values follow IEEE 754
  (\<open>inf - inf\<close>, \<open>0 * inf\<close>, \<open>0 / 0\<close> and \<open>inf / inf\<close> are NaN, NaN absorbs, a
  nonzero number divided by zero is an infinity). An arithmetic operation on real
  numbers gives the exact real result, also where the float result would round or
  overflow; what is proved of attention weights is therefore stated on the scores
  themselves and asks that they are real numbers.
\<close>

datatype fl = Fin real | PInf | NInf | NaN

fun fneg :: "fl \<Rightarrow> fl" where
  "fneg (Fin a) = Fin (- a)"
| "fneg PInf = NInf"
| "fneg NInf = PInf"
| "fneg NaN = NaN"

fun fadd :: "fl \<Rightarrow> fl \<Rightarrow> fl" where
  "fadd NaN _ = NaN"
| "fadd _ NaN = NaN"
| "fadd PInf NInf = NaN"
| "fadd NInf PInf = NaN"
| "fadd PInf _ = PInf"
| "fadd _ PInf = PInf"
| "fadd NInf _ = NInf"
| "fadd _ NInf = NInf"
| "fadd (Fin a) (Fin b) = Fin (a + b)"

definition fsub :: "fl \<Rightarrow> fl \<Rightarrow> fl" where
  "fsub x y = fadd x (fneg y)"

fun fmul :: "fl \<Rightarrow> fl \<Rightarrow> fl" where
  "fmul NaN _ = NaN"
| "fmul _ NaN = NaN"
| "fmul (Fin a) (Fin b) = Fin (a * b)"
| "fmul (Fin a) PInf = (if a = 0 then NaN else if 0 < a then PInf else NInf)"
| "fmul (Fin a) NInf = (if a = 0 then NaN else if 0 < a then NInf else PInf)"
| "fmul PInf (Fin b) = (if b = 0 then NaN else if 0 < b then PInf else NInf)"
| "fmul NInf (Fin b) = (if b = 0 then NaN else if 0 < b then NInf else PInf)"
| "fmul PInf PInf = PInf"
| "fmul NInf NInf = PInf"
| "fmul PInf NInf = NInf"
| "fmul NInf PInf = NInf"

fun fdiv :: "fl \<Rightarrow> fl \<Rightarrow> fl" where
  "fdiv NaN _ = NaN"
| "fdiv _ NaN = NaN"
| "fdiv (Fin a) (Fin b) =
     (if b = 0 then (if a = 0 then NaN else if 0 < a then PInf else NInf) else Fin (a / b))"
| "fdiv (Fin a) PInf = Fin 0"
| "fdiv (Fin a) NInf = Fin 0"
| "fdiv PInf (Fin b) = (if 0 \<le> b then PInf else NInf)"
| "fdiv NInf (Fin b) = (if 0 \<le> b then NInf else PInf)"
| "fdiv PInf PInf = NaN"
| "fdiv PInf NInf = NaN"
| "fdiv NInf PInf = NaN"
| "fdiv NInf NInf = NaN"

fun fexp :: "fl \<Rightarrow> fl" where
  "fexp (Fin a) = Fin (exp a)"
| "fexp PInf = PInf"
| "fexp NInf = Fin 0"
| "fexp NaN = NaN"

fun fsqrt :: "fl \<Rightarrow> fl" where
  "fsqrt (Fin a) = (if a < 0 then NaN else Fin (sqrt a))"
| "fsqrt PInf = PInf"
| "fsqrt NInf = NaN"
| "fsqrt NaN = NaN"

fun fmax :: "fl \<Rightarrow> fl \<Rightarrow> fl" where
  "fmax NaN _ = NaN"
| "fmax _ NaN = NaN"
| "fmax PInf _ = PInf"
| "fmax _ PInf = PInf"
| "fmax NInf y = y"
| "fmax x NInf = x"
| "fmax (Fin a) (Fin b) = Fin (max a b)"

text \<open>\<^verbatim>\<open>torch.relu\<close>: NaN stays NaN.\<close>

fun frelu :: "fl \<Rightarrow> fl" where
  "frelu (Fin a) = Fin (max 0 a)"
| "frelu PInf = PInf"
| "frelu NInf = Fin 0"
| "frelu NaN = NaN"

text \<open>The comparison \<^verbatim>\<open>t == 0\<close> of one element: false on NaN.\<close>

definition feq0 :: "fl \<Rightarrow> bool" where
  "feq0 x = (x = Fin 0)"

type_synonym vec = "fl list"
type_synonym matrix = "fl list list"

definition fsum :: "vec \<Rightarrow> fl" where
  "fsum xs = foldr fadd xs (Fin 0)"

definition dot :: "vec \<Rightarrow> vec \<Rightarrow> fl" where
  "dot u v = fsum (map2 fmul u v)"

section \<open>The PyTorch operations the notebooks call\<close>

text \<open>
  A tensor of rank 2 is the list of its rows, a tensor of rank 3 the list of its
  matrices. Attention, normalisation and the feed-forward layers treat the batch axis
  elementwise, so their models take one batch element: a matrix of
  \<open>seq_len\<close> rows and \<open>feature_dim\<close> columns. The matrix without rows stands for
  the tensor of no rows of every number of columns.
\<close>

definition rows_of_length :: "nat \<Rightarrow> matrix \<Rightarrow> bool" where
  "rows_of_length n X = list_all (\<lambda>r. length r = n) X"

text \<open>\<^verbatim>\<open>a @ b.transpose(-2, -1)\<close>: entry \<open>(i, j)\<close> is the dot product of row \<open>i\<close> of
  \<open>a\<close> and row \<open>j\<close> of \<open>b\<close>; the rows of both must have one length.\<close>

definition matmul_nt :: "matrix \<Rightarrow> matrix \<Rightarrow> py_error + matrix" where
  "matmul_nt A B =
     (if list_all (\<lambda>a. list_all (\<lambda>b. length a = length b) B) A
      then Inr (map (\<lambda>a. map (\<lambda>b. dot a b) B) A)
      else Inl RuntimeError)"

text \<open>\<^verbatim>\<open>a @ b\<close>: entry \<open>(i, j)\<close> is the dot product of row \<open>i\<close> of \<open>a\<close> and column \<open>j\<close>
  of \<open>b\<close>; the rows of \<open>a\<close> must be as long as \<open>b\<close> has rows.\<close>

definition matmul :: "matrix \<Rightarrow> matrix \<Rightarrow> py_error + matrix" where
  "matmul A B =
     (if rows_of_length (length B) A
      then Inr (map (\<lambda>a. map (\<lambda>c. dot a c) (transpose B)) A)
      else Inl RuntimeError)"

text \<open>
  \<^verbatim>\<open>softmax(dim=-1)\<close> of one row, as PyTorch computes it: subtract the row's maximum,
  exponentiate, divide by the sum. A row of \<open>-inf\<close> only gives NaN throughout
  (\<open>-inf - -inf\<close>).
\<close>

definition fmaximum :: "vec \<Rightarrow> fl" where
  "fmaximum xs = foldr fmax xs NInf"

definition softmax_row :: "vec \<Rightarrow> vec" where
  "softmax_row xs =
     (let m = fmaximum xs;
          es = map (\<lambda>x. fexp (fsub x m)) xs;
          s = fsum es
      in map (\<lambda>e. fdiv e s) es)"

definition softmax :: "matrix \<Rightarrow> matrix" where
  "softmax X = map softmax_row X"

subsection \<open>nn.Linear\<close>

text \<open>
  The initial parameters of a module are random. A \<open>seed\<close> stands for the draws: it
  gives every parameter entry of every submodule (addressed by a path) a real number.
\<close>

type_synonym seed = "nat list \<Rightarrow> nat \<Rightarrow> nat \<Rightarrow> real"

definition sub_seed :: "seed \<Rightarrow> nat \<Rightarrow> seed" where
  "sub_seed g k = (\<lambda>p. g (k # p))"

record Linear =
  in_features :: nat
  out_features :: nat
  weight :: matrix
  bias :: "vec option"

text \<open>\<^verbatim>\<open>nn.Linear(in_features, out_features, bias)\<close>: the weight has \<open>out_features\<close>
  rows and \<open>in_features\<close> columns; a negative size raises.\<close>

definition Linear_init :: "seed \<Rightarrow> int \<Rightarrow> int \<Rightarrow> bool \<Rightarrow> py_error + Linear" where
  "Linear_init g fin fout use_bias =
     (if fin < 0 \<or> fout < 0 then Inl RuntimeError
      else Inr \<lparr>in_features = nat fin, out_features = nat fout,
                weight = map (\<lambda>i. map (\<lambda>j. Fin (g [] i j)) [0..<nat fin]) [0..<nat fout],
                bias = (if use_bias then Some (map (\<lambda>i. Fin (g [] i (nat fin))) [0..<nat fout])
                        else None)\<rparr>)"

definition Linear_row :: "Linear \<Rightarrow> vec \<Rightarrow> vec" where
  "Linear_row l v =
     (case bias l of
        None \<Rightarrow> map (\<lambda>w. dot w v) (weight l)
      | Some b \<Rightarrow> map2 (\<lambda>w bi. fadd (dot w v) bi) (weight l) b)"

text \<open>The layer is applied to every row; a row of another length than \<open>in_features\<close>
  raises (\<^verbatim>\<open>mat1 and mat2 shapes cannot be multiplied\<close>).\<close>

definition Linear_forward :: "Linear \<Rightarrow> matrix \<Rightarrow> py_error + matrix" where
  "Linear_forward l X =
     (if rows_of_length (in_features l) X then Inr (map (Linear_row l) X)
      else Inl RuntimeError)"

subsection \<open>nn.Dropout\<close>

text \<open>
  \<^verbatim>\<open>nn.Dropout(p)\<close> is the identity in evaluation mode. In training mode it draws a
  mask and returns the input times the mask, scaled by \<open>1 / (1 - p)\<close>; \<open>keep\<close> is the
  mask drawn for the call (each module of the notebooks is called once per forward
  pass), addressed by the element's index.
\<close>

record Dropout =
  drop_p :: real
  training :: bool
  keep :: "nat list \<Rightarrow> bool"

definition Dropout_init :: "(nat list \<Rightarrow> bool) \<Rightarrow> real \<Rightarrow> py_error + Dropout" where
  "Dropout_init k prob =
     (if prob < 0 \<or> 1 < prob then Inl ValueError
      else Inr \<lparr>drop_p = prob, training = True, keep = k\<rparr>)"

definition Dropout_elem :: "Dropout \<Rightarrow> nat list \<Rightarrow> fl \<Rightarrow> fl" where
  "Dropout_elem d idx x =
     (if training d
      then (if keep d idx \<and> drop_p d \<noteq> 1 then fmul x (Fin (1 / (1 - drop_p d)))
            else fmul x (Fin 0))
      else x)"

definition Dropout_forward :: "Dropout \<Rightarrow> matrix \<Rightarrow> matrix" where
  "Dropout_forward d X =
     map (\<lambda>(i, r). map (\<lambda>(j, x). Dropout_elem d [i, j] x) (enumerate 0 r)) (enumerate 0 X)"

definition Dropout_forward3 :: "Dropout \<Rightarrow> matrix list \<Rightarrow> matrix list" where
  "Dropout_forward3 d Xs =
     map (\<lambda>(h, X). map (\<lambda>(i, r). map (\<lambda>(j, x). Dropout_elem d [h, i, j] x) (enumerate 0 r))
                        (enumerate 0 X))
         (enumerate 0 Xs)"

subsection \<open>Broadcasting\<close>

text \<open>
  PyTorch broadcasts an axis of size one against an axis of any size. \<open>expand_row n r\<close>
  is \<open>r\<close> expanded to size \<open>n\<close> along one axis; \<open>broadcast_length\<close> is the common size of
  two axes; sizes that differ and are both not one raise.
\<close>

definition expand_row :: "nat \<Rightarrow> 'a list \<Rightarrow> py_error + 'a list" where
  "expand_row n r =
     (if length r = n then Inr r
      else if length r = 1 then Inr (replicate n (hd r))
      else Inl RuntimeError)"

definition broadcast_length :: "nat \<Rightarrow> nat \<Rightarrow> py_error + nat" where
  "broadcast_length k n =
     (if k = n then Inr n
      else if k = 1 then Inr n
      else if n = 1 then Inr k
      else Inl RuntimeError)"

text \<open>Elementwise \<^verbatim>\<open>a + b\<close> of two matrices: the rows are broadcast against each other,
  then the entries of every pair of rows. On two matrices of one shape this is the sum
  entry by entry.\<close>

definition same_shape :: "matrix \<Rightarrow> matrix \<Rightarrow> bool" where
  "same_shape A B = (map length A = map length B)"

definition add_row :: "vec \<Rightarrow> vec \<Rightarrow> py_error + vec" where
  "add_row a b =
     then_do (broadcast_length (length a) (length b)) (\<lambda>n.
     then_do (expand_row n a) (\<lambda>a'.
     then_do (expand_row n b) (\<lambda>b'.
       Inr (map2 fadd a' b'))))"

definition tensor_add :: "matrix \<Rightarrow> matrix \<Rightarrow> py_error + matrix" where
  "tensor_add A B =
     then_do (broadcast_length (length A) (length B)) (\<lambda>n.
     then_do (expand_row n A) (\<lambda>A'.
     then_do (expand_row n B) (\<lambda>B'.
       sequence_err (map2 add_row A' B'))))"

section \<open>The forecasting notebook\<close>

subsection \<open>Attention\<close>

record Attention =
  key_att :: Linear
  query_att :: Linear
  value_att :: Linear
  scale_att :: fl
  causal_att :: bool
  causal_mask_att :: "bool list list option"

text \<open>\<^verbatim>\<open>head_size ** -0.5\<close> raises on \<open>head_size = 0\<close>; the three layers are built
  first.\<close>

definition Attention_init :: "seed \<Rightarrow> int \<Rightarrow> int \<Rightarrow> bool \<Rightarrow> py_error + Attention" where
  "Attention_init g feature_size head_size causal =
     then_do (Linear_init (sub_seed g 0) feature_size head_size False) (\<lambda>k.
     then_do (Linear_init (sub_seed g 1) feature_size head_size False) (\<lambda>q.
     then_do (Linear_init (sub_seed g 2) feature_size head_size False) (\<lambda>v.
       if head_size = 0 then Inl ZeroDivisionError
       else Inr \<lparr>key_att = k, query_att = q, value_att = v,
                 scale_att = Fin (1 / sqrt (real_of_int head_size)),
                 causal_att = causal, causal_mask_att = None\<rparr>)))"

text \<open>\<^verbatim>\<open>torch.tril(torch.ones((n, n))).bool()\<close>.\<close>

definition tril_ones :: "nat \<Rightarrow> bool list list" where
  "tril_ones n = map (\<lambda>i. map (\<lambda>j. j \<le> i) [0..<n]) [0..<n]"

text \<open>\<^verbatim>\<open>scores.masked_fill(m, v)\<close> with a mask of the shape of the scores.\<close>

definition masked_fill :: "matrix \<Rightarrow> bool list list \<Rightarrow> fl \<Rightarrow> py_error + matrix" where
  "masked_fill S M v =
     (if map length S = map length M
      then Inr (map2 (\<lambda>s m. map2 (\<lambda>x b. if b then v else x) s m) S M)
      else Inl RuntimeError)"

text \<open>The buffer \<^verbatim>\<open>causal_mask\<close> after the test
  \<^verbatim>\<open>self.causal_mask is None or self.causal_mask.size(0) != seq_length\<close>.\<close>

definition causal_mask_for :: "Attention \<Rightarrow> nat \<Rightarrow> bool list list" where
  "causal_mask_for a seq_length =
     (case causal_mask_att a of
        None \<Rightarrow> tril_ones seq_length
      | Some cm \<Rightarrow> if length cm \<noteq> seq_length then tril_ones seq_length else cm)"

text \<open>
  The user's mask of one batch element is a row over the key positions;
  \<^verbatim>\<open>mask.unsqueeze(1).expand_as(scores)\<close> repeats it for every query position (a row
  of one entry is expanded along the keys as well).
\<close>

definition expand_mask :: "nat \<Rightarrow> vec \<Rightarrow> py_error + matrix" where
  "expand_mask seq_length m =
     (if length m = seq_length then Inr (replicate seq_length m)
      else if length m = 1 then Inr (replicate seq_length (replicate seq_length (hd m)))
      else Inl RuntimeError)"

text \<open>
  The forward pass in its stages. First the projections and the scores
  \<^verbatim>\<open>torch.matmul(q, k.transpose(-2, -1)) * self.scale\<close>, returned with the values.
\<close>

definition Attention_scores :: "Attention \<Rightarrow> matrix \<Rightarrow> py_error + (matrix \<times> matrix)" where
  "Attention_scores a x =
     then_do (Linear_forward (key_att a) x) (\<lambda>k.
     then_do (Linear_forward (query_att a) x) (\<lambda>q.
     then_do (Linear_forward (value_att a) x) (\<lambda>v.
     then_do (matmul_nt q k) (\<lambda>qk.
       Inr (map (map (\<lambda>s. fmul s (scale_att a))) qk, v)))))"

text \<open>
  Then, on the scores of a sequence of length \<open>seq_length\<close>: the causal mask when the
  module is causal, the user's mask when there is one, and the softmax over the keys.
  The result is the weights and the module with its buffer.
\<close>

definition Attention_masked_softmax ::
  "Attention \<Rightarrow> nat \<Rightarrow> matrix \<Rightarrow> vec option \<Rightarrow> py_error + (matrix \<times> Attention)" where
  "Attention_masked_softmax a seq_length scores msk =
     then_do
       (if causal_att a
        then (let cm = causal_mask_for a seq_length in
              then_do (masked_fill scores (map (map Not) cm) NInf)
                (\<lambda>s. Inr (s, a\<lparr>causal_mask_att := Some cm\<rparr>)))
        else Inr (scores, a)) (\<lambda>(scores1, a').
     then_do
       (case msk of
          None \<Rightarrow> Inr scores1
        | Some m \<Rightarrow>
            then_do (expand_mask seq_length m) (\<lambda>M.
              masked_fill scores1 (map (map feq0) M) NInf)) (\<lambda>scores2.
       Inr (softmax scores2, a')))"

text \<open>The forward pass up to the softmax: the weights, the values and the module with
  its buffer.\<close>

definition Attention_attn_weights ::
  "Attention \<Rightarrow> matrix \<Rightarrow> vec option \<Rightarrow> py_error + (matrix \<times> matrix \<times> Attention)" where
  "Attention_attn_weights a x msk =
     then_do (Attention_scores a x) (\<lambda>(scores, v).
     then_do (Attention_masked_softmax a (length x) scores msk) (\<lambda>(attn_weights, a').
       Inr (attn_weights, v, a')))"

definition Attention_forward ::
  "Attention \<Rightarrow> matrix \<Rightarrow> vec option \<Rightarrow> py_error + (matrix \<times> Attention)" where
  "Attention_forward a x msk =
     then_do (Attention_attn_weights a x msk) (\<lambda>(attn_weights, v, a').
     then_do (matmul attn_weights v) (\<lambda>output. Inr (output, a')))"

subsection \<open>MultiHeadAttention\<close>

record MultiHeadAttention =
  heads_mha :: "Attention list"
  output_projection_mha :: Linear

definition MultiHeadAttention_init ::
  "seed \<Rightarrow> int \<Rightarrow> int \<Rightarrow> int \<Rightarrow> py_error + MultiHeadAttention" where
  "MultiHeadAttention_init g num_heads head_size feature_size =
     then_do (sequence_err (map (\<lambda>i. Attention_init (sub_seed g i) feature_size head_size False)
                              [0..<nat num_heads])) (\<lambda>hs.
     then_do (Linear_init (sub_seed g (nat num_heads)) (num_heads * head_size) feature_size True)
       (\<lambda>op. Inr \<lparr>heads_mha = hs, output_projection_mha = op\<rparr>))"

text \<open>\<^verbatim>\<open>torch.cat(outs, dim=-1)\<close>: the rows of the heads' outputs side by side; no
  tensor, or outputs of different sequence lengths, raise.\<close>

definition cat_last :: "matrix list \<Rightarrow> py_error + matrix" where
  "cat_last outs =
     (case outs of
        [] \<Rightarrow> Inl RuntimeError
      | o1 # _ \<Rightarrow>
          if list_all (\<lambda>o2. length o2 = length o1) outs
          then Inr (map (\<lambda>t. concat (map (\<lambda>o2. o2 ! t) outs)) [0..<length o1])
          else Inl RuntimeError)"

definition MultiHeadAttention_forward ::
  "MultiHeadAttention \<Rightarrow> matrix \<Rightarrow> vec option \<Rightarrow> py_error + (matrix \<times> MultiHeadAttention)" where
  "MultiHeadAttention_forward m x msk =
     then_do (sequence_err (map (\<lambda>head. Attention_forward head x msk) (heads_mha m)))
       (\<lambda>head_outputs.
     then_do (cat_last (map fst head_outputs)) (\<lambda>concatenated.
     then_do (Linear_forward (output_projection_mha m) concatenated) (\<lambda>y.
       Inr (y, m\<lparr>heads_mha := map snd head_outputs\<rparr>))))"

subsection \<open>FeedForward\<close>

text \<open>The fields are the layers of the \<^verbatim>\<open>nn.Sequential\<close> by their index; layer 1 is
  the ReLU.\<close>

record FeedForward =
  net0_ff :: Linear
  net2_ff :: Dropout
  net3_ff :: Linear

definition FeedForward_init ::
  "seed \<Rightarrow> (nat list \<Rightarrow> bool) \<Rightarrow> int \<Rightarrow> int \<Rightarrow> real \<Rightarrow> py_error + FeedForward" where
  "FeedForward_init g k n_embd expansion_factor dropout_rate =
     then_do (Linear_init (sub_seed g 0) n_embd (n_embd * expansion_factor) True) (\<lambda>l0.
     then_do (Dropout_init k dropout_rate) (\<lambda>d.
     then_do (Linear_init (sub_seed g 3) (n_embd * expansion_factor) n_embd True) (\<lambda>l3.
       Inr \<lparr>net0_ff = l0, net2_ff = d, net3_ff = l3\<rparr>)))"

definition FeedForward_forward :: "FeedForward \<Rightarrow> matrix \<Rightarrow> py_error + matrix" where
  "FeedForward_forward f x =
     then_do (Linear_forward (net0_ff f) x) (\<lambda>h.
       Linear_forward (net3_ff f) (Dropout_forward (net2_ff f) (map (map frelu) h)))"

subsection \<open>TimeSeriesTransformer\<close>

text \<open>\<^verbatim>\<open>nn.Embedding(num_embeddings, embedding_dim)\<close> is its table; a lookup of an index
  past the table raises.\<close>

definition Embedding_init :: "seed \<Rightarrow> int \<Rightarrow> int \<Rightarrow> py_error + matrix" where
  "Embedding_init g num_embeddings embedding_dim =
     (if num_embeddings < 0 \<or> embedding_dim < 0 then Inl RuntimeError
      else Inr (map (\<lambda>i. map (\<lambda>j. Fin (g [] i j)) [0..<nat embedding_dim])
                  [0..<nat num_embeddings]))"

definition Embedding_forward :: "matrix \<Rightarrow> nat list \<Rightarrow> py_error + matrix" where
  "Embedding_forward table idx =
     (if list_all (\<lambda>i. i < length table) idx then Inr (map (\<lambda>i. table ! i) idx)
      else Inl IndexError)"

record TimeSeriesTransformer =
  forecast_horizon_tst :: int
  position_embedding_table_tst :: matrix
  input_projection_tst :: Linear
  sa_heads_tst :: MultiHeadAttention
  ffwd_tst :: FeedForward
  output_projection_tst :: Linear

definition TimeSeriesTransformer_init ::
  "seed \<Rightarrow> (nat list \<Rightarrow> bool) \<Rightarrow> int \<Rightarrow> int \<Rightarrow> int \<Rightarrow> py_error + TimeSeriesTransformer" where
  "TimeSeriesTransformer_init g k n_embd block_size forecast_horizon =
     then_do (Embedding_init (sub_seed g 0) block_size n_embd) (\<lambda>tab.
     then_do (Linear_init (sub_seed g 1) 1 n_embd True) (\<lambda>ip.
     then_do (MultiHeadAttention_init (sub_seed g 2) 4 (n_embd div 4) n_embd) (\<lambda>sa.
     then_do (FeedForward_init (sub_seed g 3) k n_embd 4 (1 / 10)) (\<lambda>ff.
     then_do (Linear_init (sub_seed g 4) n_embd forecast_horizon True) (\<lambda>outp.
       Inr \<lparr>forecast_horizon_tst = forecast_horizon, position_embedding_table_tst = tab,
            input_projection_tst = ip, sa_heads_tst = sa, ffwd_tst = ff,
            output_projection_tst = outp\<rparr>)))))"

text \<open>
  \<^verbatim>\<open>t.view(B, T, -1)\<close> of a matrix \<open>t\<close> of \<open>B * T\<close> rows: the rows in \<open>B\<close> groups of \<open>T\<close>.
  On a tensor without elements the size \<open>-1\<close> cannot be inferred, which raises.
\<close>

definition view_B_T :: "nat \<Rightarrow> nat \<Rightarrow> matrix \<Rightarrow> py_error + matrix list" where
  "view_B_T B T X =
     (if concat X = [] then Inl RuntimeError
      else Inr (map (\<lambda>b. take T (drop (b * T) X)) [0..<B]))"

text \<open>\<^verbatim>\<open>output[:, -1, :]\<close> on one batch element.\<close>

definition select_last :: "matrix \<Rightarrow> py_error + vec" where
  "select_last X = (case X of [] \<Rightarrow> Inl IndexError | _ # _ \<Rightarrow> Inr (last X))"

text \<open>\<^verbatim>\<open>t.view(B, n)\<close> of a matrix \<open>t\<close> of \<open>B\<close> rows, \<open>B\<close> positive: the rows must have
  \<open>n\<close> entries, unless \<open>n\<close> is \<open>-1\<close>.\<close>

definition view_B_n :: "int \<Rightarrow> matrix \<Rightarrow> py_error + matrix" where
  "view_B_n n Y =
     (if n = - 1 \<or> list_all (\<lambda>r. int (length r) = n) Y then Inr Y else Inl RuntimeError)"

text \<open>The input is a matrix of \<open>B\<close> rows (the batch) and \<open>T\<close> columns (the window). The
  first stage projects every scalar and adds the positional embeddings.\<close>

definition TimeSeriesTransformer_embed ::
  "TimeSeriesTransformer \<Rightarrow> matrix \<Rightarrow> py_error + matrix list" where
  "TimeSeriesTransformer_embed m x =
     (let B = length x; T = (case x of [] \<Rightarrow> 0 | r # _ \<Rightarrow> length r) in
      then_do (Linear_forward (input_projection_tst m) (map (\<lambda>v. [v]) (concat x))) (\<lambda>proj.
      then_do (view_B_T B T proj) (\<lambda>x3.
      then_do (Embedding_forward (position_embedding_table_tst m) [0..<T]) (\<lambda>pos_emb.
        sequence_err (map (\<lambda>xb. tensor_add xb pos_emb) x3)))))"

text \<open>The hidden state: self-attention and the feed-forward network on every batch
  element. The heads are built with \<^verbatim>\<open>causal=False\<close> and keep no buffer.\<close>

definition TimeSeriesTransformer_hidden ::
  "TimeSeriesTransformer \<Rightarrow> matrix \<Rightarrow> py_error + matrix list" where
  "TimeSeriesTransformer_hidden m x =
     then_do (TimeSeriesTransformer_embed m x) (\<lambda>xs.
     then_do (sequence_err
               (map (\<lambda>xb. then_do (MultiHeadAttention_forward (sa_heads_tst m) xb None)
                             (\<lambda>(y, _). Inr y)) xs)) (\<lambda>ys.
       sequence_err (map (FeedForward_forward (ffwd_tst m)) ys)))"

definition TimeSeriesTransformer_forward ::
  "TimeSeriesTransformer \<Rightarrow> matrix \<Rightarrow> py_error + matrix" where
  "TimeSeriesTransformer_forward m x =
     then_do (TimeSeriesTransformer_hidden m x) (\<lambda>hs.
     then_do (sequence_err (map (Linear_forward (output_projection_tst m)) hs)) (\<lambda>output.
     then_do (sequence_err (map select_last output)) (\<lambda>lasts.
       view_B_n (forecast_horizon_tst m) lasts)))"

section \<open>The encoder/decoder notebooks\<close>

text \<open>
  The attribute lookups \<^verbatim>\<open>nn.X\<close> of the notebooks: \<open>nn_attributes\<close> are the names they
  use that the module \<^verbatim>\<open>torch.nn\<close> has; the lookup of another name raises.
\<close>

definition nn_attributes :: "string list" where
  "nn_attributes =
     [''Module'', ''Linear'', ''Dropout'', ''Parameter'', ''ModuleList'', ''Embedding'',
      ''ReLU'', ''Sequential'']"

definition nn_getattr :: "string \<Rightarrow> py_error + string" where
  "nn_getattr name = (if name \<in> set nn_attributes then Inr name else Inl AttributeError)"

text \<open>The lookup \<^verbatim>\<open>self.name\<close> on a module whose attributes so far are \<open>attrs\<close>.\<close>

definition module_getattr :: "string list \<Rightarrow> string \<Rightarrow> py_error + string" where
  "module_getattr attrs name = (if name \<in> set attrs then Inr name else Inl AttributeError)"

subsection \<open>PositionalEmbedding\<close>

text \<open>A tensor object with the attribute the forward pass reads.\<close>

record tensor_obj =
  data :: matrix
  requires_grad :: bool

datatype py_value = PyBool bool | PyMethod "bool \<Rightarrow> tensor_obj"

definition tensor_getattr :: "tensor_obj \<Rightarrow> string \<Rightarrow> py_error + py_value" where
  "tensor_getattr t name =
     (if name = ''requires_grad'' then Inr (PyBool (requires_grad t))
      else if name = ''requires_grad_'' then Inr (PyMethod (\<lambda>b. t\<lparr>requires_grad := b\<rparr>))
      else Inl AttributeError)"

text \<open>The call \<^verbatim>\<open>f(b)\<close>: a \<^verbatim>\<open>bool\<close> is not callable.\<close>

definition py_call :: "py_value \<Rightarrow> bool \<Rightarrow> py_error + tensor_obj" where
  "py_call f b = (case f of PyBool _ \<Rightarrow> Inl TypeError | PyMethod g \<Rightarrow> Inr (g b))"

record PositionalEmbedding =
  d_model_pe :: int
  seq_len_pe :: int
  dropout_pe :: Dropout
  pe_pe :: matrix

text \<open>
  The table: row \<open>pos\<close> holds \<open>sin (pos * div_term i)\<close> at the even index \<open>2 * i\<close> and
  \<open>cos (pos * div_term i)\<close> at the odd index \<open>2 * i + 1\<close>. \<open>d_model = 0\<close> divides by
  zero. With an odd \<open>d_model\<close> there is one column of cosines more than odd columns
  in the table, which raises; unless \<open>d_model\<close> is one, where the single column of
  cosines is broadcast to the empty slice of odd columns.
\<close>

definition div_term :: "int \<Rightarrow> nat \<Rightarrow> real" where
  "div_term d_model i = exp (real (2 * i) * (- ln 10000 / real_of_int d_model))"

definition PositionalEmbedding_init ::
  "(nat list \<Rightarrow> bool) \<Rightarrow> int \<Rightarrow> int \<Rightarrow> real \<Rightarrow> py_error + PositionalEmbedding" where
  "PositionalEmbedding_init k d_model seq_len dropout =
     then_do (Dropout_init k dropout) (\<lambda>d.
       if seq_len < 0 \<or> d_model < 0 then Inl RuntimeError
       else if d_model = 0 then Inl ZeroDivisionError
       else if d_model mod 2 \<noteq> 0 \<and> d_model \<noteq> 1 then Inl RuntimeError
       else Inr \<lparr>d_model_pe = d_model, seq_len_pe = seq_len, dropout_pe = d,
                 pe_pe = map (\<lambda>pos. map (\<lambda>c. if even c
                                                then Fin (sin (real pos * div_term d_model (c div 2)))
                                                else Fin (cos (real pos * div_term d_model (c div 2))))
                                          [0..<nat d_model])
                             [0..<nat seq_len]\<rparr>)"

text \<open>
  \<^verbatim>\<open>x + (self.pe[:, :x.shape[1], :]). requires_grad(False)\<close>: the slice of the buffer
  is a tensor that does not require a gradient; its attribute \<^verbatim>\<open>requires_grad\<close> is
  looked up and called.
\<close>

definition PositionalEmbedding_forward ::
  "PositionalEmbedding \<Rightarrow> matrix \<Rightarrow> py_error + matrix" where
  "PositionalEmbedding_forward m x =
     then_do (tensor_getattr \<lparr>data = take (length x) (pe_pe m), requires_grad = False\<rparr>
                ''requires_grad'') (\<lambda>f.
     then_do (py_call f False) (\<lambda>t.
     then_do (tensor_add x (data t)) (\<lambda>y.
       Inr (Dropout_forward (dropout_pe m) y))))"

subsection \<open>LayerNormalization\<close>

record LayerNormalization =
  eps_ln :: fl
  alpha_ln :: fl
  bias_ln :: fl

text \<open>\<^verbatim>\<open>self.alpha = nn.Paremeter(torch.ones(1))\<close> looks the name up before anything
  else of the statement.\<close>

definition LayerNormalization_init :: "fl \<Rightarrow> py_error + LayerNormalization" where
  "LayerNormalization_init eps =
     then_do (nn_getattr ''Paremeter'') (\<lambda>_.
     then_do (nn_getattr ''Parameter'') (\<lambda>_.
       Inr \<lparr>eps_ln = eps, alpha_ln = Fin 1, bias_ln = Fin 0\<rparr>))"

text \<open>The default \<^verbatim>\<open>eps = 10**-6\<close>.\<close>

definition default_eps :: fl where
  "default_eps = Fin (1 / 10 ^ 6)"

text \<open>\<^verbatim>\<open>x.mean(dim = -1)\<close> and \<^verbatim>\<open>x.std(dim = -1)\<close> of one row; the standard deviation
  is PyTorch's default, with Bessel's correction.\<close>

definition mean_row :: "vec \<Rightarrow> fl" where
  "mean_row x = fdiv (fsum x) (Fin (real (length x)))"

definition std_row :: "vec \<Rightarrow> fl" where
  "std_row x =
     fsqrt (fdiv (fsum (map (\<lambda>xi. fmul (fsub xi (mean_row x)) (fsub xi (mean_row x))) x))
                 (Fin (real (length x - 1))))"

definition LayerNormalization_row :: "LayerNormalization \<Rightarrow> vec \<Rightarrow> vec" where
  "LayerNormalization_row m x =
     (let mean = mean_row x; std = std_row x in
      map (\<lambda>xi. fadd (fdiv (fmul (alpha_ln m) (fsub xi mean)) (fadd std (eps_ln m))) (bias_ln m))
        x)"

definition LayerNormalization_forward :: "LayerNormalization \<Rightarrow> matrix \<Rightarrow> matrix" where
  "LayerNormalization_forward m x = map (LayerNormalization_row m) x"

subsection \<open>FeedForwardBlock\<close>

record FeedForwardBlock =
  linear_1_ffb :: Linear
  dropout_ffb :: Dropout
  linear_2_ffb :: Linear

definition FeedForwardBlock_init ::
  "seed \<Rightarrow> (nat list \<Rightarrow> bool) \<Rightarrow> int \<Rightarrow> int \<Rightarrow> real \<Rightarrow> py_error + FeedForwardBlock" where
  "FeedForwardBlock_init g k d_model d_ff dropout =
     then_do (Linear_init (sub_seed g 0) d_model d_ff True) (\<lambda>l1.
     then_do (Dropout_init k dropout) (\<lambda>d.
     then_do (Linear_init (sub_seed g 1) d_ff d_model True) (\<lambda>l2.
       Inr \<lparr>linear_1_ffb = l1, dropout_ffb = d, linear_2_ffb = l2\<rparr>)))"

definition FeedForwardBlock_forward :: "FeedForwardBlock \<Rightarrow> matrix \<Rightarrow> py_error + matrix" where
  "FeedForwardBlock_forward f x =
     then_do (Linear_forward (linear_1_ffb f) x) (\<lambda>h.
       Linear_forward (linear_2_ffb f) (Dropout_forward (dropout_ffb f) (map (map frelu) h)))"

subsection \<open>MultiHeadAttentionBlock\<close>

record MultiHeadAttentionBlock =
  d_model_mhab :: int
  h_mhab :: int
  d_k_mhab :: int
  w_q_mhab :: Linear
  w_k_mhab :: Linear
  w_v_mhab :: Linear
  w_o_mhab :: Linear
  dropout_mhab :: Dropout
  attention_scores_mhab :: "matrix list option"

text \<open>
  \<^verbatim>\<open>assert d_model % h == 0\<close>: the remainder by zero raises; Python's \<^verbatim>\<open>%\<close> and
  \<^verbatim>\<open>//\<close> on integers are \<open>mod\<close> and \<open>div\<close>. The attribute \<^verbatim>\<open>attention_scores\<close> is
  set by the first forward pass.
\<close>

definition MultiHeadAttentionBlock_init ::
  "seed \<Rightarrow> (nat list \<Rightarrow> bool) \<Rightarrow> int \<Rightarrow> int \<Rightarrow> real \<Rightarrow> py_error + MultiHeadAttentionBlock" where
  "MultiHeadAttentionBlock_init g k d_model h dropout =
     (if h = 0 then Inl ZeroDivisionError
      else if d_model mod h \<noteq> 0 then Inl AssertionError
      else
        then_do (Linear_init (sub_seed g 0) d_model d_model True) (\<lambda>wq.
        then_do (Linear_init (sub_seed g 1) d_model d_model True) (\<lambda>wk.
        then_do (Linear_init (sub_seed g 2) d_model d_model True) (\<lambda>wv.
        then_do (Linear_init (sub_seed g 3) d_model d_model True) (\<lambda>wo.
        then_do (Dropout_init k dropout) (\<lambda>d.
          Inr \<lparr>d_model_mhab = d_model, h_mhab = h, d_k_mhab = d_model div h,
               w_q_mhab = wq, w_k_mhab = wk, w_v_mhab = wv, w_o_mhab = wo,
               dropout_mhab = d, attention_scores_mhab = None\<rparr>))))))"

text \<open>
  The static method on the heads of one batch element: \<open>query\<close>, \<open>key\<close> and \<open>value\<close> are
  lists of \<open>h\<close> matrices, the mask is a matrix over (query position, key position)
  shared by the heads. \<open>d_k\<close> is the length of a query row; it only matters where there
  is one. First the scores \<^verbatim>\<open>(query @ key.transpose(-2, -1)) / math.sqrt(d_k)\<close> of
  every head.
\<close>

definition attention_scaled_scores :: "matrix list \<Rightarrow> matrix list \<Rightarrow> py_error + matrix list" where
  "attention_scaled_scores query key =
     (let d_k = (case concat query of [] \<Rightarrow> 0 | r # _ \<Rightarrow> length r) in
      then_do (if length query = length key then sequence_err (map2 matmul_nt query key)
               else Inl RuntimeError) (\<lambda>qk.
        Inr (map (map (map (\<lambda>s. fdiv s (Fin (sqrt (real d_k)))))) qk)))"

text \<open>
  \<^verbatim>\<open>scores.masked_fill_(m, v)\<close> works in place, so the mask is broadcast to the shape of
  the scores: it has as many rows as the scores or one row, and a row of it has as many
  entries as the row of scores or one entry.
\<close>

definition masked_fill_inplace :: "matrix \<Rightarrow> bool list list \<Rightarrow> fl \<Rightarrow> py_error + matrix" where
  "masked_fill_inplace S M v =
     then_do (expand_row (length S) M) (\<lambda>M'.
       sequence_err
         (map2 (\<lambda>s m. then_do (expand_row (length s) m)
                          (\<lambda>m'. Inr (map2 (\<lambda>x b. if b then v else x) s m')))
            S M'))"

text \<open>\<^verbatim>\<open>attention_scores.masked_fill_(mask == 0, -1e9)\<close> when there is a mask.\<close>

definition attention_fill :: "matrix list \<Rightarrow> matrix option \<Rightarrow> py_error + matrix list" where
  "attention_fill scores msk =
     (case msk of
        None \<Rightarrow> Inr scores
      | Some m \<Rightarrow>
          sequence_err
            (map (\<lambda>S. masked_fill_inplace S (map (map feq0) m) (Fin (- (10 ^ 9)))) scores))"

definition attention_masked_scores ::
  "matrix list \<Rightarrow> matrix list \<Rightarrow> matrix option \<Rightarrow> py_error + matrix list" where
  "attention_masked_scores query key msk =
     then_do (attention_scaled_scores query key) (\<lambda>scores. attention_fill scores msk)"

definition attention ::
  "matrix list \<Rightarrow> matrix list \<Rightarrow> matrix list \<Rightarrow> matrix option \<Rightarrow> Dropout option
     \<Rightarrow> py_error + (matrix list \<times> matrix list)" where
  "attention query key val msk dropout =
     then_do (attention_masked_scores query key msk) (\<lambda>scores.
     then_do
       (Inr (case dropout of
               None \<Rightarrow> map softmax scores
             | Some d \<Rightarrow> Dropout_forward3 d (map softmax scores))) (\<lambda>attention_scores.
     then_do (if length attention_scores = length val
              then sequence_err (map2 matmul attention_scores val)
              else Inl RuntimeError) (\<lambda>out.
       Inr (out, attention_scores))))"

text \<open>
  \<^verbatim>\<open>t.view(B, L, h, d_k).transpose(1, 2)\<close> on one batch element: head \<open>i\<close> gets the
  columns \<open>i * d_k ..< (i + 1) * d_k\<close>. The sizes are as the constructor leaves them,
  or negative, which raises.
\<close>

definition split_heads :: "int \<Rightarrow> int \<Rightarrow> matrix \<Rightarrow> py_error + matrix list" where
  "split_heads h d_k X =
     (if h < 0 \<or> d_k < 0 then Inl RuntimeError
      else if rows_of_length (nat h * nat d_k) X
      then Inr (map (\<lambda>i. map (\<lambda>r. take (nat d_k) (drop (i * nat d_k) r)) X) [0..<nat h])
      else Inl RuntimeError)"

text \<open>\<^verbatim>\<open>x.transpose(1, 2).contiguous().view(B, -1, h * d_k)\<close>: the rows of the heads
  side by side; the size \<open>-1\<close> cannot be inferred when \<open>h * d_k\<close> is zero.\<close>

definition merge_heads :: "int \<Rightarrow> int \<Rightarrow> matrix list \<Rightarrow> py_error + matrix" where
  "merge_heads h d_k xs = (if h * d_k \<le> 0 then Inl RuntimeError else cat_last xs)"

definition MultiHeadAttentionBlock_forward ::
  "MultiHeadAttentionBlock \<Rightarrow> matrix \<Rightarrow> matrix \<Rightarrow> matrix \<Rightarrow> matrix option
     \<Rightarrow> py_error + (matrix \<times> MultiHeadAttentionBlock)" where
  "MultiHeadAttentionBlock_forward m q k v msk =
     then_do (Linear_forward (w_q_mhab m) q) (\<lambda>query.
     then_do (Linear_forward (w_k_mhab m) k) (\<lambda>key.
     then_do (Linear_forward (w_v_mhab m) v) (\<lambda>val.
     then_do (split_heads (h_mhab m) (d_k_mhab m) query) (\<lambda>query'.
     then_do (split_heads (h_mhab m) (d_k_mhab m) key) (\<lambda>key'.
     then_do (split_heads (h_mhab m) (d_k_mhab m) val) (\<lambda>val'.
     then_do (attention query' key' val' msk (Some (dropout_mhab m))) (\<lambda>(x, scores).
     then_do (merge_heads (h_mhab m) (d_k_mhab m) x) (\<lambda>x'.
     then_do (Linear_forward (w_o_mhab m) x') (\<lambda>y.
       Inr (y, m\<lparr>attention_scores_mhab := Some scores\<rparr>))))))))))"

text \<open>
  A call \<^verbatim>\<open>block(*args)\<close> of the module: \<^verbatim>\<open>forward\<close> takes four arguments after
  \<^verbatim>\<open>self\<close>; another number of arguments, or \<^verbatim>\<open>None\<close> where a layer needs a tensor, is
  a \<^verbatim>\<open>TypeError\<close>.
\<close>

datatype py_arg = Tensor matrix | PyNone

definition MultiHeadAttentionBlock_call ::
  "MultiHeadAttentionBlock \<Rightarrow> py_arg list \<Rightarrow> py_error + (matrix \<times> MultiHeadAttentionBlock)" where
  "MultiHeadAttentionBlock_call m args =
     (case args of
        [Tensor q, Tensor k, Tensor v, msk] \<Rightarrow>
          MultiHeadAttentionBlock_forward m q k v
            (case msk of PyNone \<Rightarrow> None | Tensor t \<Rightarrow> Some t)
      | _ \<Rightarrow> Inl TypeError)"

subsection \<open>ResidualConnection\<close>

record ResidualConnection =
  dropout_rc :: Dropout
  norm_rc :: LayerNormalization

definition ResidualConnection_init ::
  "(nat list \<Rightarrow> bool) \<Rightarrow> real \<Rightarrow> py_error + ResidualConnection" where
  "ResidualConnection_init k dropout =
     then_do (Dropout_init k dropout) (\<lambda>d.
     then_do (LayerNormalization_init default_eps) (\<lambda>n.
       Inr \<lparr>dropout_rc = d, norm_rc = n\<rparr>))"

text \<open>
  \<^verbatim>\<open>x + self.dropout(sublayer(self.norm(x)))\<close>. The sublayer is a callable; besides
  its tensor it returns what it leaves behind (the attention block it has updated; the
  unit for a stateless sublayer).
\<close>

definition ResidualConnection_forward ::
  "ResidualConnection \<Rightarrow> matrix \<Rightarrow> (matrix \<Rightarrow> py_error + (matrix \<times> 's))
     \<Rightarrow> py_error + (matrix \<times> 's)" where
  "ResidualConnection_forward m x sublayer =
     then_do (sublayer (LayerNormalization_forward (norm_rc m) x)) (\<lambda>(y, s).
     then_do (tensor_add x (Dropout_forward (dropout_rc m) y)) (\<lambda>z. Inr (z, s)))"

subsection \<open>EncoderBlock, Encoder, DecoderBlock, Decoder\<close>

record EncoderBlock =
  self_attention_block_eb :: MultiHeadAttentionBlock
  feed_forward_block_eb :: FeedForwardBlock
  residual_connection_eb :: "ResidualConnection list"

definition EncoderBlock_init ::
  "(nat \<Rightarrow> nat list \<Rightarrow> bool) \<Rightarrow> MultiHeadAttentionBlock \<Rightarrow> FeedForwardBlock \<Rightarrow> real
     \<Rightarrow> py_error + EncoderBlock" where
  "EncoderBlock_init k self_attention_block feed_forward_block dropout =
     then_do (sequence_err (map (\<lambda>i. ResidualConnection_init (k i) dropout) [0..<2])) (\<lambda>rcs.
       Inr \<lparr>self_attention_block_eb = self_attention_block,
            feed_forward_block_eb = feed_forward_block,
            residual_connection_eb = rcs\<rparr>)"

record Encoder =
  layers_enc :: "EncoderBlock list"
  norm_enc :: LayerNormalization

text \<open>\<^verbatim>\<open>self.norm - LayerNormalization()\<close> is a subtraction: its left operand is
  looked up on the module first, where only \<^verbatim>\<open>layers\<close> is set.\<close>

definition Encoder_init :: "EncoderBlock list \<Rightarrow> py_error + Encoder" where
  "Encoder_init layers =
     then_do (module_getattr [''layers''] ''norm'') (\<lambda>_.
     then_do (LayerNormalization_init default_eps) (\<lambda>n.
       Inr \<lparr>layers_enc = layers, norm_enc = n\<rparr>))"

record DecoderBlock =
  self_attention_block_db :: MultiHeadAttentionBlock
  cross_attention_block_db :: MultiHeadAttentionBlock
  feed_forward_block_db :: FeedForwardBlock
  residual_connections_db :: "ResidualConnection list"

text \<open>\<^verbatim>\<open>super.__init__()\<close> calls the initialiser of the type \<^verbatim>\<open>super\<close> without an
  object, a \<^verbatim>\<open>TypeError\<close>; \<^verbatim>\<open>nn.Mpdule\<close> is not a name of \<^verbatim>\<open>torch.nn\<close>.\<close>

definition super_init_unbound :: "py_error + unit" where
  "super_init_unbound = Inl TypeError"

definition DecoderBlock_init ::
  "(nat \<Rightarrow> nat list \<Rightarrow> bool) \<Rightarrow> MultiHeadAttentionBlock \<Rightarrow> MultiHeadAttentionBlock
     \<Rightarrow> FeedForwardBlock \<Rightarrow> real \<Rightarrow> py_error + DecoderBlock" where
  "DecoderBlock_init k self_attention_block cross_attention_block feed_forward_block dropout =
     then_do super_init_unbound (\<lambda>_.
     then_do (nn_getattr ''Mpdule'') (\<lambda>_.
     then_do (sequence_err (map (\<lambda>i. ResidualConnection_init (k i) dropout) [0..<3])) (\<lambda>rcs.
       Inr \<lparr>self_attention_block_db = self_attention_block,
            cross_attention_block_db = cross_attention_block,
            feed_forward_block_db = feed_forward_block,
            residual_connections_db = rcs\<rparr>)))"

text \<open>\<^verbatim>\<open>xs[i]\<close> on a list of modules.\<close>

definition get_item :: "'a list \<Rightarrow> nat \<Rightarrow> py_error + 'a" where
  "get_item xs i = (if i < length xs then Inr (xs ! i) else Inl IndexError)"

text \<open>
  The forward pass of the decoder block. The two attention sublayers call their block
  with three arguments: \<^verbatim>\<open>self.self_attention_block(x, x, tgt_mask)\<close> and
  \<^verbatim>\<open>self.cross_attention_block(x, encoder_output, src_mask)\<close>.
\<close>

definition DecoderBlock_forward ::
  "DecoderBlock \<Rightarrow> matrix \<Rightarrow> matrix \<Rightarrow> py_arg \<Rightarrow> py_arg \<Rightarrow> py_error + (matrix \<times> DecoderBlock)" where
  "DecoderBlock_forward m x encoder_output src_mask tgt_mask =
     then_do (get_item (residual_connections_db m) 0) (\<lambda>rc0.
     then_do (ResidualConnection_forward rc0 x
                (\<lambda>x. MultiHeadAttentionBlock_call (self_attention_block_db m)
                        [Tensor x, Tensor x, tgt_mask])) (\<lambda>(x1, sab).
     then_do (get_item (residual_connections_db m) 1) (\<lambda>rc1.
     then_do (ResidualConnection_forward rc1 x1
                (\<lambda>x. MultiHeadAttentionBlock_call (cross_attention_block_db m)
                        [Tensor x, Tensor encoder_output, src_mask])) (\<lambda>(x2, cab).
     then_do (get_item (residual_connections_db m) 2) (\<lambda>rc2.
     then_do (ResidualConnection_forward rc2 x2
                (\<lambda>x. then_do (FeedForwardBlock_forward (feed_forward_block_db m) x)
                        (\<lambda>y. Inr (y, ())))) (\<lambda>(x3, _).
       Inr (x3, m\<lparr>self_attention_block_db := sab, cross_attention_block_db := cab\<rparr>)))))))"

record Decoder =
  layers_dec :: "DecoderBlock list"
  norm_dec :: LayerNormalization

definition Decoder_init :: "DecoderBlock list \<Rightarrow> py_error + Decoder" where
  "Decoder_init layers =
     then_do (LayerNormalization_init default_eps) (\<lambda>n.
       Inr \<lparr>layers_dec = layers, norm_dec = n\<rparr>)"

section \<open>Shapes and finite values\<close>

text \<open>
  What the constructors establish and an optimiser step keeps: every layer's weight has
  the shape its sizes say, the layers of a module fit each other, and the cached causal
  mask, when there is one, is the lower triangle of its size.
\<close>

fun is_fin :: "fl \<Rightarrow> bool" where
  "is_fin (Fin _) = True"
| "is_fin _ = False"

definition finite_matrix :: "matrix \<Rightarrow> bool" where
  "finite_matrix X = list_all (list_all is_fin) X"

definition wf_Linear :: "nat \<Rightarrow> nat \<Rightarrow> Linear \<Rightarrow> bool" where
  "wf_Linear fin fout l =
     (in_features l = fin \<and> out_features l = fout \<and> length (weight l) = fout
      \<and> rows_of_length fin (weight l)
      \<and> (case bias l of None \<Rightarrow> True | Some b \<Rightarrow> length b = fout))"

definition cache_ok :: "Attention \<Rightarrow> bool" where
  "cache_ok a =
     (case causal_mask_att a of None \<Rightarrow> True | Some cm \<Rightarrow> cm = tril_ones (length cm))"

definition wf_Attention :: "nat \<Rightarrow> nat \<Rightarrow> Attention \<Rightarrow> bool" where
  "wf_Attention fs hs a =
     (wf_Linear fs hs (key_att a) \<and> wf_Linear fs hs (query_att a)
      \<and> wf_Linear fs hs (value_att a) \<and> cache_ok a)"

definition wf_MultiHeadAttention :: "nat \<Rightarrow> nat \<Rightarrow> MultiHeadAttention \<Rightarrow> bool" where
  "wf_MultiHeadAttention fs hs m =
     (heads_mha m \<noteq> [] \<and> list_all (wf_Attention fs hs) (heads_mha m)
      \<and> wf_Linear (length (heads_mha m) * hs) fs (output_projection_mha m))"

definition wf_FeedForward :: "nat \<Rightarrow> FeedForward \<Rightarrow> bool" where
  "wf_FeedForward n f =
     (wf_Linear n (out_features (net0_ff f)) (net0_ff f)
      \<and> wf_Linear (out_features (net0_ff f)) n (net3_ff f))"

definition wf_TimeSeriesTransformer :: "nat \<Rightarrow> nat \<Rightarrow> TimeSeriesTransformer \<Rightarrow> bool" where
  "wf_TimeSeriesTransformer n_embd head_size m =
     (0 < n_embd
      \<and> rows_of_length n_embd (position_embedding_table_tst m)
      \<and> wf_Linear 1 n_embd (input_projection_tst m)
      \<and> wf_MultiHeadAttention n_embd head_size (sa_heads_tst m)
      \<and> wf_FeedForward n_embd (ffwd_tst m)
      \<and> wf_Linear n_embd (nat (forecast_horizon_tst m)) (output_projection_tst m)
      \<and> 0 \<le> forecast_horizon_tst m)"

text \<open>
  Where attention may look. In \<open>Attention\<close> the user's mask is a row over the keys (as
  long as the sequence, or of one entry); key \<open>j\<close> is open under it when the entry that
  falls on \<open>j\<close> is not zero. Query \<open>i\<close> may attend to key \<open>j\<close> when the key is open and,
  in causal mode, not after \<open>i\<close>.
\<close>

definition mask_fits :: "nat \<Rightarrow> vec option \<Rightarrow> bool" where
  "mask_fits seq_length msk =
     (case msk of None \<Rightarrow> True | Some m \<Rightarrow> length m = seq_length \<or> length m = 1)"

definition key_open :: "nat \<Rightarrow> vec option \<Rightarrow> nat \<Rightarrow> bool" where
  "key_open seq_length msk j =
     (case msk of
        None \<Rightarrow> True
      | Some m \<Rightarrow> \<not> feq0 (if length m = seq_length then m ! j else hd m))"

definition may_attend :: "Attention \<Rightarrow> nat \<Rightarrow> vec option \<Rightarrow> nat \<Rightarrow> nat \<Rightarrow> bool" where
  "may_attend a seq_length msk i j = ((\<not> causal_att a \<or> j \<le> i) \<and> key_open seq_length msk j)"

text \<open>
  The masked scores of \<open>Attention\<close> in closed form, for reasoning: on the scores \<open>S\<close> of
  a sequence of length \<open>L\<close>, entry \<open>(i, j)\<close> is the score where \<open>i\<close> may attend to \<open>j\<close>,
  and \<open>-inf\<close> elsewhere; \<open>masked_scores\<close> is the same with the scaled dot product
  of query \<open>i\<close> and key \<open>j\<close> as the score. The forward pass is shown to compute them.
\<close>

definition tabulate2 :: "nat \<Rightarrow> nat \<Rightarrow> (nat \<Rightarrow> nat \<Rightarrow> 'a) \<Rightarrow> 'a list list" where
  "tabulate2 k n f = map (\<lambda>i. map (\<lambda>j. f i j) [0..<n]) [0..<k]"

definition masked_scores_of :: "Attention \<Rightarrow> nat \<Rightarrow> matrix \<Rightarrow> vec option \<Rightarrow> matrix" where
  "masked_scores_of a L S msk =
     tabulate2 L L (\<lambda>i j. if may_attend a L msk i j then S ! i ! j else NInf)"

definition masked_scores :: "Attention \<Rightarrow> matrix \<Rightarrow> vec option \<Rightarrow> matrix" where
  "masked_scores a x msk =
     tabulate2 (length x) (length x)
       (\<lambda>i j. if may_attend a (length x) msk i j
              then fmul (dot (Linear_row (query_att a) (x ! i)) (Linear_row (key_att a) (x ! j)))
                     (scale_att a)
              else NInf)"

text \<open>The summands of a softmax over a row of real numbers and \<open>-inf\<close>, after the
  maximum \<open>M\<close> is subtracted.\<close>

fun fin_or_ninf :: "fl \<Rightarrow> bool" where
  "fin_or_ninf (Fin _) = True"
| "fin_or_ninf NInf = True"
| "fin_or_ninf _ = False"

fun exp_weight :: "real \<Rightarrow> fl \<Rightarrow> real" where
  "exp_weight M (Fin a) = exp (a - M)"
| "exp_weight M _ = 0"

text \<open>A row of probabilities: real numbers that are not negative, with sum one.\<close>

definition prob_row :: "vec \<Rightarrow> bool" where
  "prob_row w = (fsum w = Fin 1 \<and> list_all (\<lambda>p. case p of Fin r \<Rightarrow> 0 \<le> r | _ \<Rightarrow> False) w)"


section \<open>Concrete modules and inputs\<close>

text \<open>Small modules on which the statements below are run: a seed that draws zero
  everywhere, a dropout in evaluation mode, layers of one feature, a feed-forward block
  on three features.\<close>

definition zero_seed :: seed where
  "zero_seed = (\<lambda>_ _ _. 0)"

definition keep_all :: "nat list \<Rightarrow> bool" where
  "keep_all = (\<lambda>_. True)"

definition eval_dropout :: Dropout where
  "eval_dropout = \<lparr>drop_p = 0, training = False, keep = keep_all\<rparr>"

definition ln_example :: LayerNormalization where
  "ln_example = \<lparr>eps_ln = default_eps, alpha_ln = Fin 1, bias_ln = Fin 0\<rparr>"

definition rc_example :: ResidualConnection where
  "rc_example = \<lparr>dropout_rc = eval_dropout, norm_rc = ln_example\<rparr>"

definition linear_1x1 :: "real \<Rightarrow> Linear" where
  "linear_1x1 w = \<lparr>in_features = 1, out_features = 1, weight = [[Fin w]], bias = None\<rparr>"

definition attention_example :: "bool \<Rightarrow> Attention" where
  "attention_example causal =
     \<lparr>key_att = linear_1x1 1, query_att = linear_1x1 1, value_att = linear_1x1 0,
      scale_att = Fin 1, causal_att = causal, causal_mask_att = None\<rparr>"

definition ffb_example :: FeedForwardBlock where
  "ffb_example =
     \<lparr>linear_1_ffb = \<lparr>in_features = 3, out_features = 1, weight = [[Fin 1, Fin 1, Fin 1]],
                      bias = Some [Fin 0]\<rparr>,
      dropout_ffb = eval_dropout,
      linear_2_ffb = \<lparr>in_features = 1, out_features = 3, weight = [[Fin 1], [Fin 1], [Fin 1]],
                      bias = Some [Fin 1, Fin 2, Fin 3]\<rparr>\<rparr>"

definition mhab_example :: MultiHeadAttentionBlock where
  "mhab_example =
     \<lparr>d_model_mhab = 1, h_mhab = 1, d_k_mhab = 1,
      w_q_mhab = linear_1x1 1, w_k_mhab = linear_1x1 1, w_v_mhab = linear_1x1 1,
      w_o_mhab = linear_1x1 1, dropout_mhab = eval_dropout, attention_scores_mhab = None\<rparr>"

section \<open>The normalisation in the specification's words\<close>

text \<open>
  The mean of a list of real numbers and its variance with the correction \<open>c\<close> (\<open>0\<close> for
  the population variance, \<open>1\<close> for Bessel's). The specification standardises with the
  mean and the variance over the feature axis and adds the epsilon to the variance in
  the denominator: \<open>layer_norm_spec c\<close> is that formula on the reals.
\<close>

definition mean_of :: "real list \<Rightarrow> real" where
  "mean_of xs = sum_list xs / real (length xs)"

definition variance_of :: "nat \<Rightarrow> real list \<Rightarrow> real" where
  "variance_of c xs = (\<Sum>x\<leftarrow>xs. (x - mean_of xs)\<^sup>2) / real (length xs - c)"

definition layer_norm_spec :: "nat \<Rightarrow> real \<Rightarrow> real \<Rightarrow> real \<Rightarrow> real list \<Rightarrow> real list" where
  "layer_norm_spec c eps alpha bias_s xs =
     map (\<lambda>x. alpha * (x - mean_of xs) / sqrt (variance_of c xs + eps) + bias_s) xs"

section \<open>Basic facts\<close>

lemma then_do_Inl [simp]: "then_do (Inl e) f = Inl e"
  by (simp add: then_do_def)

lemma then_do_Inr [simp]: "then_do (Inr v) f = f v"
  by (simp add: then_do_def)

lemma then_do_eq_Inr: "then_do r f = Inr z \<longleftrightarrow> (\<exists>v. r = Inr v \<and> f v = Inr z)"
  by (cases r) simp_all

lemma sequence_err_map_ok:
  "(\<And>x. x \<in> set xs \<Longrightarrow> f x = Inr (g x)) \<Longrightarrow> sequence_err (map f xs) = Inr (map g xs)"
  by (induction xs) simp_all

lemma sequence_err_map_ex:
  "(\<And>x. x \<in> set xs \<Longrightarrow> \<exists>y. f x = Inr y \<and> P y) \<Longrightarrow>
     \<exists>ys. sequence_err (map f xs) = Inr ys \<and> length ys = length xs \<and> list_all P ys"
proof (induction xs)
  case Nil
  show ?case by simp
next
  case (Cons x xs)
  from Cons.prems obtain y where y: "f x = Inr y" "P y" by auto
  from Cons obtain ys where "sequence_err (map f xs) = Inr ys" "length ys = length xs"
    "list_all P ys" by auto
  with y show ?case by simp
qed

lemma upt_2: "[0..<2] = [0, Suc 0]"
  by (simp add: upt_rec)

lemma upt_3: "[0..<3] = [0, Suc 0, Suc (Suc 0)]"
  by (simp add: upt_rec)

section \<open>Construction failures of the encoder/decoder notebooks\<close>

lemma LayerNormalization_init_fails: "LayerNormalization_init eps = Inl AttributeError"
  by (simp add: LayerNormalization_init_def nn_getattr_def nn_attributes_def)

lemma ResidualConnection_init_fails:
  "ResidualConnection_init k dropout =
     Inl (if dropout < 0 \<or> 1 < dropout then ValueError else AttributeError)"
  by (simp add: ResidualConnection_init_def Dropout_init_def LayerNormalization_init_fails)

text \<open>
  C9. For every \<open>eps\<close>, constructing a \<open>LayerNormalization\<close> raises: the lookup of
  \<^verbatim>\<open>nn.Paremeter\<close> is an \<open>AttributeError\<close>. So no constructor of the encoder/decoder
  notebooks that needs one returns: \<open>ResidualConnection\<close> and \<open>EncoderBlock\<close> raise (the
  dropout's \<open>ValueError\<close> when the probability is outside \<open>[0, 1]\<close>, the
  \<open>AttributeError\<close> otherwise), \<open>Encoder\<close> and \<open>Decoder\<close> raise an \<open>AttributeError\<close>,
  and \<open>DecoderBlock\<close> raises already on its first statement.
\<close>

theorem layer_normalization_never_constructed:
  "LayerNormalization_init eps = Inl AttributeError
   \<and> ResidualConnection_init k dropout =
       Inl (if dropout < 0 \<or> 1 < dropout then ValueError else AttributeError)
   \<and> EncoderBlock_init ks sab ffb dropout =
       Inl (if dropout < 0 \<or> 1 < dropout then ValueError else AttributeError)
   \<and> Encoder_init els = Inl AttributeError
   \<and> DecoderBlock_init ks sab cab ffb dropout = Inl TypeError
   \<and> Decoder_init dls = Inl AttributeError"
  by (simp add: LayerNormalization_init_fails ResidualConnection_init_fails
      EncoderBlock_init_def Encoder_init_def DecoderBlock_init_def Decoder_init_def
      module_getattr_def super_init_unbound_def upt_2)

section \<open>The sinusoidal positional embedding\<close>

text \<open>
  C10. For every module state and every input, the forward pass of the sinusoidal
  \<open>PositionalEmbedding\<close> raises before it returns: the attribute
  \<^verbatim>\<open>requires_grad\<close> of the sliced buffer is a \<^verbatim>\<open>bool\<close>, and calling it is a
  \<open>TypeError\<close>.
\<close>

theorem positional_embedding_forward_raises:
  "PositionalEmbedding_forward m x = Inl TypeError"
  by (simp add: PositionalEmbedding_forward_def tensor_getattr_def py_call_def)

section \<open>The decoder block\<close>

lemma MultiHeadAttentionBlock_call_three:
  "MultiHeadAttentionBlock_call b [a1, a2, a3] = Inl TypeError"
  by (simp add: MultiHeadAttentionBlock_call_def split: py_arg.splits)

lemma ResidualConnection_forward_Inl:
  "ResidualConnection_forward rc x (\<lambda>z. Inl e) = Inl e"
  by (simp add: ResidualConnection_forward_def)

text \<open>
  C4. The claim: a decoder-block forward call applies three residual wrappers, the
  first around self-attention with query, key and value all the decoder input. The code
  calls the self-attention block with three arguments where its forward pass takes
  four, so every forward call of a decoder block raises a \<open>TypeError\<close> inside the first
  wrapper (an \<open>IndexError\<close> when the block has no wrapper at all), whatever the inputs
  and masks.
\<close>

theorem decoder_block_forward_raises:
  "DecoderBlock_forward m x encoder_output src_mask tgt_mask =
     Inl (if residual_connections_db m = [] then IndexError else TypeError)"
  by (simp add: DecoderBlock_forward_def get_item_def MultiHeadAttentionBlock_call_three
      ResidualConnection_forward_Inl)

section \<open>Divisibility of the model width by the number of heads\<close>

lemma isl_then_do: "isl (then_do r f) \<longleftrightarrow> isl r \<or> isl (f (projr r))"
  by (cases r) auto

lemma sequence_err_isl: "isl (sequence_err rs) \<longleftrightarrow> (\<exists>r \<in> set rs. isl r)"
proof (induction rs)
  case Nil
  show ?case by simp
next
  case (Cons r rs)
  then show ?case by (cases r; cases "sequence_err rs") auto
qed

lemma Linear_init_isl: "isl (Linear_init g fin fout b) \<longleftrightarrow> fin < 0 \<or> fout < 0"
  by (simp add: Linear_init_def)

lemma Attention_init_isl:
  "isl (Attention_init g feature_size head_size causal) \<longleftrightarrow> feature_size < 0 \<or> head_size \<le> 0"
  by (auto simp: Attention_init_def Linear_init_def)

lemma MultiHeadAttention_init_isl:
  "isl (MultiHeadAttention_init g num_heads head_size feature_size) \<longleftrightarrow>
     feature_size < 0 \<or> num_heads * head_size < 0 \<or> (0 < num_heads \<and> head_size \<le> 0)"
proof -
  have "(\<exists>i. i < nat num_heads) \<longleftrightarrow> 0 < num_heads"
    by (auto intro: exI [of _ 0])
  then show ?thesis
    by (auto simp: MultiHeadAttention_init_def isl_then_do sequence_err_isl Attention_init_isl
        Linear_init_isl)
qed

lemma MultiHeadAttentionBlock_init_cases:
  "MultiHeadAttentionBlock_init g k d_model h dropout =
     (if h = 0 then Inl ZeroDivisionError
      else if d_model mod h \<noteq> 0 then Inl AssertionError
      else if d_model < 0 then Inl RuntimeError
      else if dropout < 0 \<or> 1 < dropout then Inl ValueError
      else Inr \<lparr>d_model_mhab = d_model, h_mhab = h, d_k_mhab = d_model div h,
             w_q_mhab = projr (Linear_init (sub_seed g 0) d_model d_model True),
             w_k_mhab = projr (Linear_init (sub_seed g 1) d_model d_model True),
             w_v_mhab = projr (Linear_init (sub_seed g 2) d_model d_model True),
             w_o_mhab = projr (Linear_init (sub_seed g 3) d_model d_model True),
             dropout_mhab = \<lparr>drop_p = dropout, training = True, keep = k\<rparr>,
             attention_scores_mhab = None\<rparr>)"
  by (simp add: MultiHeadAttentionBlock_init_def Linear_init_def Dropout_init_def)

text \<open>
  C5, as the code has it. The constructor of \<open>MultiHeadAttentionBlock\<close> raises its
  assertion exactly when \<open>h\<close> is not zero and \<open>d_model mod h\<close> is not zero, and a
  \<open>ZeroDivisionError\<close> exactly when \<open>h\<close> is zero; a block it returns has
  \<open>h * d_k = d_model\<close>. So a configuration that violates the divisibility ends in the
  constructor's error and never in an error of the forward pass. The constructor of
  \<open>MultiHeadAttention\<close>, which takes the head size as an argument of its own, does not
  look at divisibility at all: it raises exactly when \<open>feature_size\<close> is negative, or
  \<open>num_heads * head_size\<close> is negative, or there is a head to build (\<open>num_heads\<close> is
  positive) and \<open>head_size\<close> is not positive. So with positive \<open>num_heads\<close> and
  \<open>head_size\<close> and a \<open>feature_size\<close> that is not negative it returns, whether or not
  \<open>num_heads\<close> divides \<open>feature_size\<close>.
\<close>

theorem multi_head_attention_block_init_checks_divisibility:
  "(MultiHeadAttentionBlock_init g k d_model h dropout = Inl AssertionError
      \<longleftrightarrow> h \<noteq> 0 \<and> d_model mod h \<noteq> 0)
   \<and> (MultiHeadAttentionBlock_init g k d_model h dropout = Inl ZeroDivisionError \<longleftrightarrow> h = 0)
   \<and> (\<forall>m. MultiHeadAttentionBlock_init g k d_model h dropout = Inr m \<longrightarrow>
          h \<noteq> 0 \<and> d_model mod h = 0 \<and> d_model_mhab m = d_model \<and> h_mhab m = h
          \<and> h_mhab m * d_k_mhab m = d_model_mhab m)
   \<and> (h = 0 \<or> d_model mod h \<noteq> 0 \<longrightarrow>
        then_do (MultiHeadAttentionBlock_init g k d_model h dropout)
          (\<lambda>m. MultiHeadAttentionBlock_forward m q kk v msk)
        = Inl (if h = 0 then ZeroDivisionError else AssertionError))
   \<and> (isl (MultiHeadAttention_init g' num_heads head_size feature_size) \<longleftrightarrow>
        feature_size < 0 \<or> num_heads * head_size < 0 \<or> (0 < num_heads \<and> head_size \<le> 0))
   \<and> (0 < num_heads \<and> 0 < head_size \<and> 0 \<le> feature_size \<longrightarrow>
        \<not> isl (MultiHeadAttention_init g' num_heads head_size feature_size))"
  by (auto simp: MultiHeadAttentionBlock_init_cases MultiHeadAttention_init_isl
      zero_less_mult_iff not_less mult_nonneg_nonneg)

theorem multi_head_attention_block_init_witness:
  "MultiHeadAttentionBlock_init zero_seed keep_all 6 4 0 = Inl AssertionError
   \<and> MultiHeadAttentionBlock_init zero_seed keep_all 6 0 0 = Inl ZeroDivisionError
   \<and> (\<exists>m. MultiHeadAttentionBlock_init zero_seed keep_all 6 3 0 = Inr m
          \<and> h_mhab m * d_k_mhab m = d_model_mhab m)
   \<and> then_do (MultiHeadAttentionBlock_init zero_seed keep_all 6 4 0)
          (\<lambda>m. MultiHeadAttentionBlock_forward m [] [] [] None) = Inl AssertionError
   \<and> \<not> isl (MultiHeadAttention_init zero_seed 4 1 8)"
  using multi_head_attention_block_init_checks_divisibility
          [of zero_seed keep_all 6 4 0 "[]" "[]" "[]" None zero_seed 4 1 8]
    multi_head_attention_block_init_checks_divisibility [of zero_seed keep_all 6 0 0]
    multi_head_attention_block_init_checks_divisibility [of zero_seed keep_all 6 3 0]
  by (simp add: MultiHeadAttentionBlock_init_cases)

text \<open>The claim fails for \<open>MultiHeadAttention\<close>: with a feature size of 6 and 4 heads
  (the head size \<open>6 // 4\<close> that \<open>TimeSeriesTransformer\<close> passes) the constructor
  returns.\<close>

theorem multi_head_attention_init_counterexample:
  "(6::int) mod 4 \<noteq> 0 \<and> \<not> isl (MultiHeadAttention_init zero_seed 4 (6 div 4) 6)"
  by (simp add: MultiHeadAttention_init_isl)

section \<open>Layer normalisation\<close>

lemma fsum_Nil [simp]: "fsum [] = Fin 0"
  by (simp add: fsum_def)

lemma fsum_Cons [simp]: "fsum (x # xs) = fadd x (fsum xs)"
  by (simp add: fsum_def)

lemma fsum_Fin: "fsum (map Fin xs) = Fin (sum_list xs)"
  by (induction xs) simp_all

lemma fsub_Fin [simp]: "fsub (Fin a) (Fin b) = Fin (a - b)"
  by (simp add: fsub_def)

lemma fadd_NaN_right [simp]: "fadd x NaN = NaN"
  by (cases x) simp_all

lemma fmul_NaN_right [simp]: "fmul x NaN = NaN"
  by (cases x) simp_all

lemma fdiv_NaN_right [simp]: "fdiv x NaN = NaN"
  by (cases x) simp_all

lemma mean_row_Fin: "xs \<noteq> [] \<Longrightarrow> mean_row (map Fin xs) = Fin (mean_of xs)"
  by (simp add: mean_row_def mean_of_def fsum_Fin)

lemma sum_list_squares_nonneg: "0 \<le> (\<Sum>x\<leftarrow>xs. (x - c)\<^sup>2)" for c :: real
  by (induction xs) simp_all

lemma variance_of_nonneg: "0 \<le> variance_of c xs"
  by (simp add: variance_of_def sum_list_squares_nonneg)

lemma std_row_Fin:
  assumes "2 \<le> length xs"
  shows "std_row (map Fin xs) = Fin (sqrt (variance_of 1 xs))"
proof -
  have ne: "xs \<noteq> []" using assms by auto
  have sq: "map (\<lambda>xi. fmul (fsub xi (Fin (mean_of xs))) (fsub xi (Fin (mean_of xs)))) (map Fin xs)
      = map Fin (map (\<lambda>x. (x - mean_of xs)\<^sup>2) xs)"
    by (simp add: power2_eq_square)
  have pos: "real (length xs - 1) \<noteq> 0" using assms by simp
  have "std_row (map Fin xs) =
      fsqrt (fdiv (Fin (\<Sum>x\<leftarrow>xs. (x - mean_of xs)\<^sup>2)) (Fin (real (length xs - 1))))"
    unfolding std_row_def mean_row_Fin [OF ne] sq fsum_Fin by simp
  also have "\<dots> = fsqrt (Fin (variance_of 1 xs))"
    using pos by (simp add: variance_of_def)
  also have "\<dots> = Fin (sqrt (variance_of 1 xs))"
    using variance_of_nonneg [of 1 xs] by simp
  finally show ?thesis .
qed

lemma LayerNormalization_row_Fin:
  assumes "2 \<le> length xs" and "eps_ln m = Fin e" and "0 < e"
    and "alpha_ln m = Fin a" and "bias_ln m = Fin b"
  shows "LayerNormalization_row m (map Fin xs) =
     map (\<lambda>x. Fin (a * (x - mean_of xs) / (sqrt (variance_of 1 xs) + e) + b)) xs"
proof -
  have ne: "xs \<noteq> []" using assms(1) by auto
  have "0 \<le> sqrt (variance_of 1 xs)"
    using variance_of_nonneg [of 1 xs] by simp
  then have "sqrt (variance_of 1 xs) + e \<noteq> 0"
    using assms(3) by linarith
  then show ?thesis
    by (simp add: LayerNormalization_row_def mean_row_Fin [OF ne] std_row_Fin [OF assms(1)]
        assms(2,4,5))
qed

lemma LayerNormalization_row_single: "LayerNormalization_row m [x] = [NaN]"
  by (cases x) (simp_all add: LayerNormalization_row_def mean_row_def std_row_def fsub_def)

lemma mean_ex: "mean_of [- 3, 0, 3] = 0"
  by (simp add: mean_of_def)

lemma var1_ex: "variance_of (Suc 0) [- 3, 0, 3] = 9"
  by (simp add: variance_of_def mean_ex)

lemma var0_ex: "variance_of 0 [- 3, 0, 3] = 6"
  by (simp add: variance_of_def mean_ex)

lemma code_ex:
  assumes "0 < e"
  shows "LayerNormalization_row \<lparr>eps_ln = Fin e, alpha_ln = Fin 1, bias_ln = Fin 0\<rparr>
           (map Fin [- 3, 0, 3]) =
         [Fin (- 3 / (3 + e)), Fin 0, Fin (3 / (3 + e))]"
proof -
  have "LayerNormalization_row \<lparr>eps_ln = Fin e, alpha_ln = Fin 1, bias_ln = Fin 0\<rparr>
          (map Fin [- 3, 0, 3]) =
     map (\<lambda>x. Fin (1 * (x - mean_of [- 3, 0, 3]) / (sqrt (variance_of 1 [- 3, 0, 3]) + e) + 0))
       [- 3, 0, 3]"
    by (rule LayerNormalization_row_Fin) (simp_all add: assms)
  then show ?thesis
    by (simp add: mean_ex var1_ex)
qed

lemma spec_ex:
  "layer_norm_spec c e 1 0 [- 3, 0, 3] =
     [- 3 / sqrt (variance_of c [- 3, 0, 3] + e), 0, 3 / sqrt (variance_of c [- 3, 0, 3] + e)]"
  by (simp add: layer_norm_spec_def mean_ex)

lemma eps_placement_differs:
  assumes "0 < e" and "v \<le> 9" and "0 \<le> v"
  shows "3 / (3 + e) \<noteq> 3 / sqrt (v + e)"
proof -
  have "v + e < (3 + e)\<^sup>2"
  proof -
    have "(3 + e)\<^sup>2 = 9 + 6 * e + e * e"
      by (simp add: power2_eq_square algebra_simps)
    moreover have "0 < e * e" using assms(1) by simp
    ultimately show ?thesis using assms by linarith
  qed
  then have "sqrt (v + e) < sqrt ((3 + e)\<^sup>2)"
    by (rule real_sqrt_less_mono)
  then have "sqrt (v + e) < 3 + e"
    using assms(1) by simp
  then have "sqrt (v + e) \<noteq> 3 + e" by simp
  then show ?thesis
    by (simp add: divide_cancel_left eq_commute)
qed

text \<open>
  C6, as the code has it. On an input of real numbers with at least two features per
  position, and with real parameters and a positive epsilon, every position is
  standardised with the mean over its features and with the standard deviation, the
  square root of the variance with Bessel's correction; the epsilon is added to the
  standard deviation, not to the variance under the root; then the result is scaled by
  \<open>alpha\<close> and shifted by \<open>bias\<close>. A position with a single feature has no such
  variance: its output is NaN.
\<close>

theorem layer_normalization_forward_formula:
  assumes "eps_ln m = Fin e" and "0 < e" and "alpha_ln m = Fin a" and "bias_ln m = Fin b"
    and "list_all (\<lambda>xs. 2 \<le> length xs) X"
  shows "LayerNormalization_forward m (map (map Fin) X) =
           map (\<lambda>xs. map (\<lambda>x. Fin (a * (x - mean_of xs) / (sqrt (variance_of 1 xs) + e) + b)) xs)
             X
         \<and> LayerNormalization_forward m [[x1]] = [[NaN]]"
proof -
  have "LayerNormalization_row m (map Fin xs) =
      map (\<lambda>x. Fin (a * (x - mean_of xs) / (sqrt (variance_of 1 xs) + e) + b)) xs"
    if "xs \<in> set X" for xs
  proof (rule LayerNormalization_row_Fin)
    show "2 \<le> length xs"
      using assms(5) that by (simp add: list_all_iff)
  qed (use assms in simp_all)
  then show ?thesis
    by (simp add: LayerNormalization_forward_def LayerNormalization_row_single)
qed

theorem layer_normalization_forward_witness:
  "eps_ln ln_example = Fin (1 / 10 ^ 6) \<and> alpha_ln ln_example = Fin 1
   \<and> bias_ln ln_example = Fin 0
   \<and> LayerNormalization_forward ln_example [[Fin (- 3), Fin 0, Fin 3]] =
       [[Fin (- 3 / (3 + 1 / 10 ^ 6)), Fin 0, Fin (3 / (3 + 1 / 10 ^ 6))]]"
proof -
  have p: "eps_ln ln_example = Fin (1 / 10 ^ 6)" "alpha_ln ln_example = Fin 1"
    "bias_ln ln_example = Fin 0"
    by (simp_all add: ln_example_def default_eps_def)
  have "LayerNormalization_forward ln_example (map (map Fin) [[- 3, 0, 3]]) =
      map (\<lambda>xs. map (\<lambda>x. Fin (1 * (x - mean_of xs)
                  / (sqrt (variance_of 1 xs) + 1 / 10 ^ 6) + 0)) xs) [[- 3, 0, 3]]"
    using layer_normalization_forward_formula [OF p(1) _ p(2) p(3), of "[[- 3, 0, 3]]"]
    by simp
  then show ?thesis
    using p by (simp add: mean_ex var1_ex)
qed

text \<open>The formula of the specification, with the epsilon added to the variance, gives
  other numbers than the code on the features \<open>-3, 0, 3\<close>, whichever variance is
  meant.\<close>

theorem layer_normalization_counterexample:
  "LayerNormalization_row ln_example (map Fin [- 3, 0, 3])
      \<noteq> map Fin (layer_norm_spec 0 (1 / 10 ^ 6) 1 0 [- 3, 0, 3])
   \<and> LayerNormalization_row ln_example (map Fin [- 3, 0, 3])
      \<noteq> map Fin (layer_norm_spec 1 (1 / 10 ^ 6) 1 0 [- 3, 0, 3])"
proof -
  define e :: real where "e = 1 / 10 ^ 6"
  have e: "0 < e" by (simp add: e_def)
  have code: "LayerNormalization_row ln_example (map Fin [- 3, 0, 3]) =
      [Fin (- 3 / (3 + e)), Fin 0, Fin (3 / (3 + e))]"
    using code_ex [OF e] by (simp add: ln_example_def default_eps_def e_def)
  have spec0: "layer_norm_spec 0 e 1 0 [- 3, 0, 3] = [- 3 / sqrt (6 + e), 0, 3 / sqrt (6 + e)]"
    by (simp add: spec_ex var0_ex)
  have spec1: "layer_norm_spec 1 e 1 0 [- 3, 0, 3] = [- 3 / sqrt (9 + e), 0, 3 / sqrt (9 + e)]"
    by (simp add: spec_ex var1_ex)
  have "3 / (3 + e) \<noteq> 3 / sqrt (6 + e)" "3 / (3 + e) \<noteq> 3 / sqrt (9 + e)"
    using eps_placement_differs [OF e, of 6] eps_placement_differs [OF e, of 9] by simp_all
  then have "LayerNormalization_row ln_example (map Fin [- 3, 0, 3])
      \<noteq> map Fin (layer_norm_spec 0 e 1 0 [- 3, 0, 3])
   \<and> LayerNormalization_row ln_example (map Fin [- 3, 0, 3])
      \<noteq> map Fin (layer_norm_spec 1 e 1 0 [- 3, 0, 3])"
    unfolding code spec0 spec1 by simp
  then show ?thesis
    unfolding e_def .
qed

section \<open>The residual wrapper\<close>

lemma Dropout_forward_shape: "map length (Dropout_forward d X) = map length X"
proof -
  have "map length (Dropout_forward d X) = map (length \<circ> snd) (enumerate 0 X)"
    by (simp add: Dropout_forward_def case_prod_unfold comp_def)
  also have "\<dots> = map length X"
    by (simp add: map_map [symmetric] del: map_map)
  finally show ?thesis .
qed

lemma Dropout_forward_length [simp]: "length (Dropout_forward d X) = length X"
  by (simp add: Dropout_forward_def)

lemma Dropout_forward_nth:
  "i < length X \<Longrightarrow> j < length (X ! i) \<Longrightarrow>
     Dropout_forward d X ! i ! j = Dropout_elem d [i, j] (X ! i ! j)"
  by (simp add: Dropout_forward_def nth_enumerate_eq)

lemma Dropout_forward_eval: "\<not> training d \<Longrightarrow> Dropout_forward d X = X"
proof -
  assume "\<not> training d"
  then have "Dropout_forward d X = map (\<lambda>(i, r). map snd (enumerate 0 r)) (enumerate 0 X)"
    by (simp add: Dropout_forward_def Dropout_elem_def case_prod_unfold)
  also have "\<dots> = map snd (enumerate 0 X)"
    by (simp add: case_prod_unfold)
  also have "\<dots> = X" by simp
  finally show ?thesis .
qed

lemma expand_row_same [simp]: "expand_row (length r) r = Inr r"
  by (simp add: expand_row_def)

lemma broadcast_length_same [simp]: "broadcast_length n n = Inr n"
  by (simp add: broadcast_length_def)

lemma add_row_same_length: "length a = length b \<Longrightarrow> add_row a b = Inr (map2 fadd a b)"
  by (simp add: add_row_def expand_row_def)

lemma same_shape_length: "same_shape A B \<Longrightarrow> length B = length A"
  by (metis length_map same_shape_def)

lemma same_shape_nth:
  "same_shape A B \<Longrightarrow> i < length A \<Longrightarrow> length (B ! i) = length (A ! i)"
  by (metis length_map nth_map same_shape_def)

lemma same_shape_zip:
  assumes "same_shape A B" and "(a, b) \<in> set (zip A B)"
  shows "length a = length b"
proof -
  from assms(2) obtain i where i: "i < length A" and a: "A ! i = a" and b: "B ! i = b"
    by (auto simp: in_set_zip)
  show ?thesis
    using same_shape_nth [OF assms(1) i] a b by simp
qed

lemma tensor_add_same_shape:
  assumes "same_shape A B"
  shows "tensor_add A B = Inr (map2 (\<lambda>a b. map2 fadd a b) A B)"
proof -
  have len: "length A = length B"
    using same_shape_length [OF assms] by simp
  have "sequence_err (map (\<lambda>(a, b). add_row a b) (zip A B))
      = Inr (map (\<lambda>(a, b). map2 fadd a b) (zip A B))"
  proof (rule sequence_err_map_ok)
    fix z assume z: "z \<in> set (zip A B)"
    obtain a b where zz: "z = (a, b)" by (cases z)
    have "length a = length b"
      using same_shape_zip [OF assms] z zz by simp
    then show "(case z of (a, b) \<Rightarrow> add_row a b) = Inr (case z of (a, b) \<Rightarrow> map2 fadd a b)"
      by (simp add: zz add_row_same_length)
  qed
  then show ?thesis
    by (simp add: tensor_add_def len expand_row_def)
qed

lemma same_shape_Dropout_forward:
  "same_shape A (Dropout_forward d B) \<longleftrightarrow> same_shape A B"
  by (simp add: same_shape_def Dropout_forward_shape)

lemma LayerNormalization_forward_shape:
  "same_shape x (LayerNormalization_forward n x)"
  by (simp add: same_shape_def LayerNormalization_forward_def LayerNormalization_row_def
      comp_def Let_def)

lemma ResidualConnection_forward_Inr:
  "sublayer (LayerNormalization_forward (norm_rc m) x) = Inr (y, s) \<Longrightarrow>
     ResidualConnection_forward m x sublayer =
       then_do (tensor_add x (Dropout_forward (dropout_rc m) y)) (\<lambda>z. Inr (z, s))"
  by (simp add: ResidualConnection_forward_def)

lemma residual_sum_elementwise:
  assumes sh: "same_shape x y"
  shows "\<exists>z. tensor_add x (Dropout_forward d y) = Inr z \<and> same_shape x z
           \<and> (\<forall>i < length x. \<forall>j < length (x ! i).
                 z ! i ! j = fadd (x ! i ! j) (Dropout_elem d [i, j] (y ! i ! j)))"
proof -
  let ?d = "Dropout_forward d y"
  let ?z = "map2 (\<lambda>a b. map2 fadd a b) x ?d"
  have shd: "same_shape x ?d"
    using sh by (simp add: same_shape_Dropout_forward)
  have run: "tensor_add x ?d = Inr ?z"
    by (rule tensor_add_same_shape [OF shd])
  have len: "length y = length x"
    using same_shape_length [OF sh] .
  have shape: "same_shape x ?z"
    unfolding same_shape_def
  proof (rule nth_equalityI)
    show "length (map length x) = length (map length ?z)"
      by (simp add: len)
  next
    fix i assume "i < length (map length x)"
    then have i: "i < length x" by simp
    then show "map length x ! i = map length ?z ! i"
      using same_shape_nth [OF shd i] by (simp add: len)
  qed
  have elems: "?z ! i ! j = fadd (x ! i ! j) (Dropout_elem d [i, j] (y ! i ! j))"
    if i: "i < length x" and j: "j < length (x ! i)" for i j
  proof -
    have li: "length (?d ! i) = length (x ! i)"
      using same_shape_nth [OF shd i] .
    have fi: "i < length y" "j < length (y ! i)"
      using same_shape_length [OF sh] same_shape_nth [OF sh i] i j by simp_all
    have "?z ! i ! j = fadd (x ! i ! j) (?d ! i ! j)"
      using i j li by (simp add: len)
    then show ?thesis
      by (simp add: Dropout_forward_nth [OF fi])
  qed
  show ?thesis
    using run shape elems by blast
qed

text \<open>
  C3. For every input \<open>x\<close> and every sublayer, the wrapper returns
  \<open>x + dropout (sublayer (norm x))\<close>: the sublayer is called on the normalised input,
  and the sum takes the input as it came. A sublayer that raises makes the wrapper raise
  the same error. When the sublayer returns \<open>y\<close> (and leaves \<open>s\<close> behind), the result is
  the sum of \<open>x\<close> and the dropout's image of \<open>y\<close>, an error when the two shapes cannot be
  broadcast. Where the sublayer keeps the shape, the sum is elementwise: entry \<open>(i, j)\<close>
  of the result is \<open>x[i][j]\<close> plus the dropout's image of entry \<open>(i, j)\<close> of \<open>y\<close>.
\<close>

theorem residual_connection_forward_is_prenorm:
  "(sublayer (LayerNormalization_forward (norm_rc m) x) = Inl e \<longrightarrow>
      ResidualConnection_forward m x sublayer = Inl e)
   \<and> (sublayer (LayerNormalization_forward (norm_rc m) x) = Inr (y, s) \<longrightarrow>
        ResidualConnection_forward m x sublayer =
          then_do (tensor_add x (Dropout_forward (dropout_rc m) y)) (\<lambda>z. Inr (z, s)))
   \<and> (sublayer (LayerNormalization_forward (norm_rc m) x) = Inr (y, s) \<and> same_shape x y \<longrightarrow>
        (\<exists>z. ResidualConnection_forward m x sublayer = Inr (z, s)
           \<and> same_shape x z
           \<and> (\<forall>i < length x. \<forall>j < length (x ! i).
                 z ! i ! j =
                   fadd (x ! i ! j) (Dropout_elem (dropout_rc m) [i, j] (y ! i ! j)))))"
proof (intro conjI impI)
  assume "sublayer (LayerNormalization_forward (norm_rc m) x) = Inl e"
  then show "ResidualConnection_forward m x sublayer = Inl e"
    by (simp add: ResidualConnection_forward_def)
next
  assume "sublayer (LayerNormalization_forward (norm_rc m) x) = Inr (y, s)"
  then show "ResidualConnection_forward m x sublayer =
      then_do (tensor_add x (Dropout_forward (dropout_rc m) y)) (\<lambda>z. Inr (z, s))"
    by (rule ResidualConnection_forward_Inr)
next
  assume a: "sublayer (LayerNormalization_forward (norm_rc m) x) = Inr (y, s) \<and> same_shape x y"
  then have run: "ResidualConnection_forward m x sublayer =
      then_do (tensor_add x (Dropout_forward (dropout_rc m) y)) (\<lambda>z. Inr (z, s))"
    by (simp add: ResidualConnection_forward_Inr)
  from a residual_sum_elementwise [of x y "dropout_rc m"]
  obtain z where "tensor_add x (Dropout_forward (dropout_rc m) y) = Inr z" and "same_shape x z"
    and "\<forall>i < length x. \<forall>j < length (x ! i).
           z ! i ! j = fadd (x ! i ! j) (Dropout_elem (dropout_rc m) [i, j] (y ! i ! j))"
    by blast
  then show "\<exists>z. ResidualConnection_forward m x sublayer = Inr (z, s)
           \<and> same_shape x z
           \<and> (\<forall>i < length x. \<forall>j < length (x ! i).
                 z ! i ! j =
                   fadd (x ! i ! j) (Dropout_elem (dropout_rc m) [i, j] (y ! i ! j)))"
    by (simp add: run)
qed

theorem residual_connection_forward_witness:
  "ResidualConnection_forward rc_example [[Fin (- 3), Fin 0, Fin 3]]
       (\<lambda>z. MultiHeadAttentionBlock_call mhab_example [Tensor z, Tensor z, PyNone])
     = Inl TypeError
   \<and> ResidualConnection_forward rc_example [[Fin (- 3), Fin 0, Fin 3]]
       (\<lambda>z. then_do (FeedForwardBlock_forward ffb_example z) (\<lambda>y. Inr (y, ())))
     = Inr ([[Fin (- 2), Fin 2, Fin 6]], ())
   \<and> ResidualConnection_forward rc_example [[Fin (- 3), Fin 0, Fin 3]] (\<lambda>z. Inr ([[Fin 10]], ()))
     = Inr ([[Fin 7, Fin 10, Fin 13]], ())
   \<and> (\<exists>z. ResidualConnection_forward rc_example [[Fin (- 3), Fin 0, Fin 3]] (\<lambda>z. Inr (z, ()))
            = Inr (z, ())
          \<and> same_shape [[Fin (- 3), Fin 0, Fin 3]] z
          \<and> z ! 0 ! 2 = Fin (3 + 3 / (3 + 1 / 10 ^ 6)))"
proof -
  let ?x = "[[Fin (- 3), Fin 0, Fin 3]]"
  let ?n = "[[Fin (- 3 / (3 + 1 / 10 ^ 6)), Fin 0, Fin (3 / (3 + 1 / 10 ^ 6))]]"
  have n: "LayerNormalization_forward (norm_rc rc_example) ?x = ?n"
    using code_ex [of "1 / 10 ^ 6"]
    by (simp add: rc_example_def ln_example_def default_eps_def LayerNormalization_forward_def)
  have d: "Dropout_forward (dropout_rc rc_example) y = y" for y
    by (simp add: rc_example_def eval_dropout_def Dropout_forward_eval)
  have raise: "ResidualConnection_forward rc_example ?x
       (\<lambda>z. MultiHeadAttentionBlock_call mhab_example [Tensor z, Tensor z, PyNone]) = Inl TypeError"
    using residual_connection_forward_is_prenorm
            [of "\<lambda>z. MultiHeadAttentionBlock_call mhab_example [Tensor z, Tensor z, PyNone]"
                rc_example ?x TypeError]
    by (simp add: MultiHeadAttentionBlock_call_three)
  have ff: "FeedForwardBlock_forward ffb_example ?n = Inr [[Fin 1, Fin 2, Fin 3]]"
    by (simp add: FeedForwardBlock_forward_def ffb_example_def Linear_forward_def
        rows_of_length_def Linear_row_def dot_def Dropout_forward_eval eval_dropout_def)
  have sub: "then_do (FeedForwardBlock_forward ffb_example
                 (LayerNormalization_forward (norm_rc rc_example) ?x)) (\<lambda>y. Inr (y, ()))
      = Inr ([[Fin 1, Fin 2, Fin 3]], ())"
    by (simp only: n ff then_do_Inr)
  have "ResidualConnection_forward rc_example ?x
       (\<lambda>z. then_do (FeedForwardBlock_forward ffb_example z) (\<lambda>y. Inr (y, ()))) =
      then_do (tensor_add ?x (Dropout_forward (dropout_rc rc_example) [[Fin 1, Fin 2, Fin 3]]))
        (\<lambda>z. Inr (z, ()))"
    using residual_connection_forward_is_prenorm
            [of "\<lambda>z. then_do (FeedForwardBlock_forward ffb_example z) (\<lambda>y. Inr (y, ()))"
                rc_example ?x _ "[[Fin 1, Fin 2, Fin 3]]" "()"] sub
    by blast
  then have fwd: "ResidualConnection_forward rc_example ?x
       (\<lambda>z. then_do (FeedForwardBlock_forward ffb_example z) (\<lambda>y. Inr (y, ())))
      = Inr ([[Fin (- 2), Fin 2, Fin 6]], ())"
    by (simp add: d tensor_add_def add_row_def expand_row_def broadcast_length_def)
  have "ResidualConnection_forward rc_example ?x (\<lambda>z. Inr ([[Fin 10]], ())) =
      then_do (tensor_add ?x (Dropout_forward (dropout_rc rc_example) [[Fin 10]]))
        (\<lambda>z. Inr (z, ()))"
    using residual_connection_forward_is_prenorm
            [of "\<lambda>z. Inr ([[Fin 10]], ())" rc_example ?x _ "[[Fin 10]]" "()"]
    by simp
  then have bc: "ResidualConnection_forward rc_example ?x (\<lambda>z. Inr ([[Fin 10]], ()))
      = Inr ([[Fin 7, Fin 10, Fin 13]], ())"
    by (simp add: d tensor_add_def add_row_def expand_row_def broadcast_length_def)
  have sh: "same_shape ?x ?n"
    by (simp add: same_shape_def)
  have idn: "Inr (LayerNormalization_forward (norm_rc rc_example) ?x, ()) = Inr (?n, ())"
    by (simp only: n)
  from residual_connection_forward_is_prenorm
         [of "\<lambda>z. Inr (z, ())" rc_example ?x _ ?n "()",
          THEN conjunct2, THEN conjunct2, THEN mp, OF conjI, OF idn sh]
  obtain z where run: "ResidualConnection_forward rc_example ?x (\<lambda>z. Inr (z, ())) = Inr (z, ())"
    and shape: "same_shape ?x z"
    and elems: "\<forall>i < length ?x. \<forall>j < length (?x ! i).
        z ! i ! j = fadd (?x ! i ! j) (Dropout_elem (dropout_rc rc_example) [i, j] (?n ! i ! j))"
    by (elim exE conjE)
  have "z ! 0 ! 2 = fadd (?x ! 0 ! 2) (Dropout_elem (dropout_rc rc_example) [0, 2] (?n ! 0 ! 2))"
    using elems by simp
  then have entry: "z ! 0 ! 2 = Fin (3 + 3 / (3 + 1 / 10 ^ 6))"
    by (simp add: Dropout_elem_def rc_example_def eval_dropout_def)
  have "\<exists>z. ResidualConnection_forward rc_example ?x (\<lambda>z. Inr (z, ())) = Inr (z, ())
          \<and> same_shape ?x z \<and> z ! 0 ! 2 = Fin (3 + 3 / (3 + 1 / 10 ^ 6))"
    using run shape entry by (intro exI [of _ z] conjI)
  with raise fwd bc show ?thesis
    by (intro conjI)
qed

section \<open>Softmax over rows of real numbers and \<open>-inf\<close>\<close>

lemma fmaximum_Nil [simp]: "fmaximum [] = NInf"
  by (simp add: fmaximum_def)

lemma fmaximum_Cons [simp]: "fmaximum (x # xs) = fmax x (fmaximum xs)"
  by (simp add: fmaximum_def)

lemma fmaximum_fin_or_ninf: "list_all fin_or_ninf xs \<Longrightarrow> fin_or_ninf (fmaximum xs)"
proof (induction xs)
  case Nil
  show ?case by simp
next
  case (Cons x xs)
  then show ?case
    by (cases x; cases "fmaximum xs") simp_all
qed

lemma fmaximum_Fin:
  "list_all fin_or_ninf xs \<Longrightarrow> \<exists>x \<in> set xs. is_fin x \<Longrightarrow> \<exists>M. fmaximum xs = Fin M"
proof (induction xs)
  case Nil
  then show ?case by simp
next
  case (Cons x xs)
  have rest: "fin_or_ninf (fmaximum xs)"
    using Cons.prems(1) by (simp add: fmaximum_fin_or_ninf)
  show ?case
  proof (cases x)
    case (Fin a)
    with rest show ?thesis by (cases "fmaximum xs") simp_all
  next
    case NInf
    with Cons obtain M where "fmaximum xs = Fin M" by auto
    with NInf show ?thesis by simp
  next
    case PInf
    with Cons.prems show ?thesis by simp
  next
    case NaN
    with Cons.prems show ?thesis by simp
  qed
qed

lemma fexp_shift: "fin_or_ninf x \<Longrightarrow> fexp (fsub x (Fin M)) = Fin (exp_weight M x)"
  by (cases x) (simp_all add: fsub_def)

lemma exp_weight_nonneg: "0 \<le> exp_weight M x"
  by (cases x) simp_all

lemma exp_weight_pos: "is_fin x \<Longrightarrow> 0 < exp_weight M x"
  by (cases x) simp_all

lemma sum_exp_weight_nonneg: "0 \<le> sum_list (map (exp_weight M) xs)"
  by (induction xs) (simp_all add: exp_weight_nonneg)

lemma sum_exp_weight_pos:
  "\<exists>x \<in> set xs. is_fin x \<Longrightarrow> 0 < sum_list (map (exp_weight M) xs)"
proof (induction xs)
  case Nil
  then show ?case by simp
next
  case (Cons x xs)
  show ?case
  proof (cases "is_fin x")
    case True
    then show ?thesis
      using exp_weight_pos [of x M] sum_exp_weight_nonneg [of M xs] by simp
  next
    case False
    with Cons have "0 < sum_list (map (exp_weight M) xs)" by auto
    then show ?thesis
      using exp_weight_nonneg [of M x] by simp
  qed
qed

lemma fsum_Fin_map: "fsum (map (\<lambda>x. Fin (f x)) xs) = Fin (sum_list (map f xs))"
  by (induction xs) (simp_all add: fsum_def)

lemma softmax_row_closed:
  assumes "list_all fin_or_ninf xs" and "\<exists>x \<in> set xs. is_fin x"
  shows "\<exists>M. softmax_row xs =
           map (\<lambda>x. Fin (exp_weight M x / sum_list (map (exp_weight M) xs))) xs"
proof -
  obtain M where M: "fmaximum xs = Fin M"
    using fmaximum_Fin [OF assms] by blast
  have es: "map (\<lambda>x. fexp (fsub x (Fin M))) xs = map (\<lambda>x. Fin (exp_weight M x)) xs"
    using assms(1) by (simp add: list_all_iff fexp_shift)
  have S: "sum_list (map (exp_weight M) xs) \<noteq> 0"
    using sum_exp_weight_pos [OF assms(2), of M] by simp
  have "softmax_row xs =
      map (\<lambda>e. fdiv e (fsum (map (\<lambda>x. Fin (exp_weight M x)) xs)))
        (map (\<lambda>x. Fin (exp_weight M x)) xs)"
    unfolding softmax_row_def Let_def M es ..
  also have "\<dots> = map (\<lambda>x. fdiv (Fin (exp_weight M x)) (Fin (sum_list (map (exp_weight M) xs)))) xs"
    by (simp add: fsum_Fin_map)
  also have "\<dots> = map (\<lambda>x. Fin (exp_weight M x / sum_list (map (exp_weight M) xs))) xs"
    using S by simp
  finally show ?thesis ..
qed

lemma softmax_row_length [simp]: "length (softmax_row xs) = length xs"
  by (simp add: softmax_row_def Let_def)

lemma softmax_row_masked_zero:
  assumes "list_all fin_or_ninf xs" and "\<exists>x \<in> set xs. is_fin x"
    and "j < length xs" and "xs ! j = NInf"
  shows "softmax_row xs ! j = Fin 0"
proof -
  obtain M where "softmax_row xs =
      map (\<lambda>x. Fin (exp_weight M x / sum_list (map (exp_weight M) xs))) xs"
    using softmax_row_closed [OF assms(1,2)] by blast
  then show ?thesis
    using assms(3,4) by simp
qed

lemma softmax_row_prob:
  assumes "list_all fin_or_ninf xs" and "\<exists>x \<in> set xs. is_fin x"
  shows "prob_row (softmax_row xs)"
proof -
  obtain M where sm: "softmax_row xs =
      map (\<lambda>x. Fin (exp_weight M x / sum_list (map (exp_weight M) xs))) xs"
    using softmax_row_closed [OF assms] by blast
  let ?S = "sum_list (map (exp_weight M) xs)"
  have S: "0 < ?S"
    using sum_exp_weight_pos [OF assms(2)] .
  have "sum_list (map (\<lambda>x. exp_weight M x / ?S) xs) = ?S / ?S"
    by (simp add: divide_inverse sum_list_mult_const)
  then have one: "sum_list (map (\<lambda>x. exp_weight M x / ?S) xs) = 1"
    using S by simp
  have nonneg: "0 \<le> exp_weight M x / ?S" for x
    using S exp_weight_nonneg [of M x] by simp
  show ?thesis
    unfolding prob_row_def sm
    by (simp add: fsum_Fin_map one list_all_iff nonneg)
qed

lemma fmaximum_replicate_NInf: "fmaximum (replicate n NInf) = NInf"
  by (induction n) simp_all

lemma fsum_replicate_NaN: "0 < n \<Longrightarrow> fsum (replicate n NaN) = NaN"
  by (cases n) simp_all

lemma softmax_row_all_NInf: "0 < n \<Longrightarrow> softmax_row (replicate n NInf) = replicate n NaN"
  by (simp add: softmax_row_def Let_def fmaximum_replicate_NInf fsub_def fsum_replicate_NaN)

section \<open>The scores of \<open>Attention\<close> in closed form\<close>

lemma length_tabulate2 [simp]: "length (tabulate2 k n f) = k"
  by (simp add: tabulate2_def)

lemma nth_tabulate2: "i < k \<Longrightarrow> tabulate2 k n f ! i = map (f i) [0..<n]"
  by (simp add: tabulate2_def)

lemma map_map_tabulate2: "map (map g) (tabulate2 k n f) = tabulate2 k n (\<lambda>i j. g (f i j))"
  by (simp add: tabulate2_def comp_def)

lemma map_length_tabulate2: "map length (tabulate2 k n f) = replicate k n"
  by (simp add: tabulate2_def comp_def map_replicate_const)

lemma map2_map_same: "map2 h (map f xs) (map g xs) = map (\<lambda>x. h (f x) (g x)) xs"
  by (induction xs) simp_all

lemma masked_fill_tabulate2:
  "masked_fill (tabulate2 k n f) (tabulate2 k n g) v =
     Inr (tabulate2 k n (\<lambda>i j. if g i j then v else f i j))"
proof -
  have "map2 (\<lambda>s m. map2 (\<lambda>x b. if b then v else x) s m) (tabulate2 k n f) (tabulate2 k n g)
      = tabulate2 k n (\<lambda>i j. if g i j then v else f i j)"
    unfolding tabulate2_def map2_map_same ..
  then show ?thesis
    by (simp add: masked_fill_def map_length_tabulate2)
qed

lemma map_as_upt: "map f xs = map (\<lambda>i. f (xs ! i)) [0..<length xs]"
proof -
  have "map f (map (\<lambda>i. xs ! i) [0..<length xs]) = map (\<lambda>i. f (xs ! i)) [0..<length xs]"
    by (simp add: comp_def)
  then show ?thesis
    by (simp add: map_nth)
qed

lemma Linear_forward_ok:
  "rows_of_length (in_features l) X \<Longrightarrow> Linear_forward l X = Inr (map (Linear_row l) X)"
  by (simp add: Linear_forward_def)

lemma Linear_row_length: "wf_Linear fin fout l \<Longrightarrow> length (Linear_row l v) = fout"
  by (auto simp: wf_Linear_def Linear_row_def split: option.splits)

lemma matmul_nt_ok:
  assumes "rows_of_length n A" and "rows_of_length n B"
  shows "matmul_nt A B = Inr (tabulate2 (length A) (length B) (\<lambda>i j. dot (A ! i) (B ! j)))"
proof -
  have ok: "list_all (\<lambda>a. list_all (\<lambda>b. length a = length b) B) A"
    using assms by (simp add: rows_of_length_def list_all_iff)
  have "map (\<lambda>a. map (\<lambda>b. dot a b) B) A
      = map (\<lambda>i. map (\<lambda>j. dot (A ! i) (B ! j)) [0..<length B]) [0..<length A]"
  proof -
    have "map (\<lambda>b. dot a b) B = map (\<lambda>j. dot a (B ! j)) [0..<length B]" for a
      by (rule map_as_upt)
    then have "map (\<lambda>a. map (\<lambda>b. dot a b) B) A = map (\<lambda>a. map (\<lambda>j. dot a (B ! j)) [0..<length B]) A"
      by simp
    also have "\<dots> = map (\<lambda>i. map (\<lambda>j. dot (A ! i) (B ! j)) [0..<length B]) [0..<length A]"
      by (rule map_as_upt)
    finally show ?thesis .
  qed
  then show ?thesis
    using ok by (simp add: matmul_nt_def tabulate2_def)
qed

lemma tril_ones_tabulate2: "tril_ones n = tabulate2 n n (\<lambda>i j. j \<le> i)"
  by (simp add: tril_ones_def tabulate2_def)

lemma length_tril_ones [simp]: "length (tril_ones n) = n"
  by (simp add: tril_ones_def)

lemma causal_mask_for_ok: "cache_ok a \<Longrightarrow> causal_mask_for a n = tril_ones n"
  by (auto simp: cache_ok_def causal_mask_for_def split: option.splits)

lemma expand_mask_ok:
  assumes "length m = n \<or> length m = 1"
  shows "expand_mask n m = Inr (tabulate2 n n (\<lambda>i j. if length m = n then m ! j else hd m))"
proof (cases "length m = n")
  case True
  have "map (\<lambda>j. m ! j) [0..<n] = m"
    using map_nth [of m] True by simp
  then have "replicate n m = map (\<lambda>i. map (\<lambda>j. m ! j) [0..<n]) [0..<n]"
    by (simp add: map_replicate_const)
  then show ?thesis
    using True by (simp add: expand_mask_def tabulate2_def)
next
  case False
  have "replicate n (replicate n (hd m)) = map (\<lambda>i. map (\<lambda>j. hd m) [0..<n]) [0..<n]"
    by (simp add: map_replicate_const)
  then show ?thesis
    using False assms by (simp add: expand_mask_def tabulate2_def)
qed

lemma nth_nth_tabulate2: "i < k \<Longrightarrow> j < n \<Longrightarrow> tabulate2 k n f ! i ! j = f i j"
  by (simp add: tabulate2_def)

lemma tabulate2_cong:
  "(\<And>i j. i < k \<Longrightarrow> j < n \<Longrightarrow> f i j = g i j) \<Longrightarrow> tabulate2 k n f = tabulate2 k n g"
  by (simp add: tabulate2_def)

lemma rows_of_length_tabulate2: "rows_of_length n (tabulate2 k n f)"
  by (simp add: rows_of_length_def tabulate2_def list_all_iff)

lemma matrix_as_tabulate2:
  assumes "length S = k" and "rows_of_length n S"
  shows "tabulate2 k n (\<lambda>i j. S ! i ! j) = S"
proof -
  have "map (\<lambda>j. S ! i ! j) [0..<n] = S ! i" if "i < k" for i
  proof -
    have "length (S ! i) = n"
      using assms that by (simp add: rows_of_length_def list_all_length)
    then show ?thesis
      using map_nth [of "S ! i"] by simp
  qed
  then have "tabulate2 k n (\<lambda>i j. S ! i ! j) = map (\<lambda>i. S ! i) [0..<k]"
    by (simp add: tabulate2_def)
  also have "\<dots> = S"
    using assms(1) map_nth [of S] by simp
  finally show ?thesis .
qed

lemma Attention_scores_closed:
  assumes wf: "wf_Attention fs hs a" and x: "rows_of_length fs x"
  shows "Attention_scores a x =
     Inr (tabulate2 (length x) (length x)
            (\<lambda>i j. fmul (dot (Linear_row (query_att a) (x ! i)) (Linear_row (key_att a) (x ! j)))
                     (scale_att a)),
          map (Linear_row (value_att a)) x)"
proof -
  let ?L = "length x"
  let ?q = "map (Linear_row (query_att a)) x"
  let ?k = "map (Linear_row (key_att a)) x"
  have wfk: "wf_Linear fs hs (key_att a)" and wfq: "wf_Linear fs hs (query_att a)"
    and wfv: "wf_Linear fs hs (value_att a)"
    using wf by (simp_all add: wf_Attention_def)
  have k: "Linear_forward (key_att a) x = Inr ?k"
    using wfk x by (simp add: Linear_forward_ok wf_Linear_def)
  have q: "Linear_forward (query_att a) x = Inr ?q"
    using wfq x by (simp add: Linear_forward_ok wf_Linear_def)
  have v: "Linear_forward (value_att a) x = Inr (map (Linear_row (value_att a)) x)"
    using wfv x by (simp add: Linear_forward_ok wf_Linear_def)
  have "rows_of_length hs ?q" "rows_of_length hs ?k"
    using wfq wfk by (simp_all add: rows_of_length_def list_all_iff Linear_row_length)
  then have "matmul_nt ?q ?k = Inr (tabulate2 (length ?q) (length ?k) (\<lambda>i j. dot (?q ! i) (?k ! j)))"
    by (rule matmul_nt_ok)
  moreover have "tabulate2 (length ?q) (length ?k) (\<lambda>i j. dot (?q ! i) (?k ! j))
      = tabulate2 ?L ?L (\<lambda>i j. dot (Linear_row (query_att a) (x ! i)) (Linear_row (key_att a) (x ! j)))"
    by (simp add: tabulate2_def)
  ultimately have qk: "matmul_nt ?q ?k =
      Inr (tabulate2 ?L ?L (\<lambda>i j. dot (Linear_row (query_att a) (x ! i)) (Linear_row (key_att a) (x ! j))))"
    by simp
  show ?thesis
    by (simp only: Attention_scores_def k q v then_do_Inr qk map_map_tabulate2)
qed

lemma Attention_masked_softmax_tabulate2:
  assumes cache: "cache_ok a" and m: "mask_fits L msk"
  shows "Attention_masked_softmax a L (tabulate2 L L sc) msk =
     Inr (softmax (tabulate2 L L (\<lambda>i j. if may_attend a L msk i j then sc i j else NInf)),
          if causal_att a then a\<lparr>causal_mask_att := Some (tril_ones L)\<rparr> else a)"
proof -
  let ?s1 = "\<lambda>i j. if \<not> causal_att a \<or> j \<le> i then sc i j else NInf"
  let ?a' = "if causal_att a then a\<lparr>causal_mask_att := Some (tril_ones L)\<rparr> else a"
  have causal_step:
    "(if causal_att a
      then then_do (masked_fill (tabulate2 L L sc) (map (map Not) (causal_mask_for a L)) NInf)
             (\<lambda>s. Inr (s, a\<lparr>causal_mask_att := Some (causal_mask_for a L)\<rparr>))
      else Inr (tabulate2 L L sc, a)) = Inr (tabulate2 L L ?s1, ?a')"
  proof (cases "causal_att a")
    case True
    have "masked_fill (tabulate2 L L sc) (map (map Not) (tril_ones L)) NInf
        = Inr (tabulate2 L L (\<lambda>i j. if \<not> j \<le> i then NInf else sc i j))"
      by (simp only: tril_ones_tabulate2 map_map_tabulate2 masked_fill_tabulate2)
    moreover have "(\<lambda>i j. if \<not> j \<le> i then NInf else sc i j) = ?s1"
      using True by (intro ext) simp
    ultimately show ?thesis
      using True by (simp add: causal_mask_for_ok [OF cache])
  next
    case False
    then show ?thesis by simp
  qed
  let ?s2 = "\<lambda>i j. if may_attend a L msk i j then sc i j else NInf"
  have mask_step:
    "(case msk of
        None \<Rightarrow> Inr (tabulate2 L L ?s1)
      | Some mm \<Rightarrow> then_do (expand_mask L mm) (\<lambda>M.
          masked_fill (tabulate2 L L ?s1) (map (map feq0) M) NInf)) = Inr (tabulate2 L L ?s2)"
  proof (cases msk)
    case None
    then show ?thesis
      by (simp add: may_attend_def key_open_def)
  next
    case (Some mm)
    let ?e = "\<lambda>i j. if length mm = L then mm ! j else hd mm"
    have fits: "length mm = L \<or> length mm = 1"
      using m Some by (simp add: mask_fits_def)
    have "masked_fill (tabulate2 L L ?s1) (map (map feq0) (tabulate2 L L ?e)) NInf
        = Inr (tabulate2 L L (\<lambda>i j. if feq0 (?e i j) then NInf else ?s1 i j))"
      by (simp only: map_map_tabulate2 masked_fill_tabulate2)
    moreover have "(\<lambda>i j. if feq0 (?e i j) then NInf else ?s1 i j) = ?s2"
      using Some by (intro ext) (simp add: may_attend_def key_open_def)
    ultimately show ?thesis
      using Some by (simp add: expand_mask_ok [OF fits])
  qed
  show ?thesis
    by (simp only: Attention_masked_softmax_def Let_def causal_step then_do_Inr case_prod_conv
        mask_step)
qed

lemma Attention_masked_softmax_closed:
  assumes cache: "cache_ok a" and len: "length S = L" and rows: "rows_of_length L S"
    and m: "mask_fits L msk"
  shows "Attention_masked_softmax a L S msk =
     Inr (softmax (masked_scores_of a L S msk),
          if causal_att a then a\<lparr>causal_mask_att := Some (tril_ones L)\<rparr> else a)"
proof -
  have "Attention_masked_softmax a L (tabulate2 L L (\<lambda>i j. S ! i ! j)) msk =
     Inr (softmax (tabulate2 L L (\<lambda>i j. if may_attend a L msk i j then S ! i ! j else NInf)),
          if causal_att a then a\<lparr>causal_mask_att := Some (tril_ones L)\<rparr> else a)"
    using cache m by (rule Attention_masked_softmax_tabulate2)
  then show ?thesis
    unfolding matrix_as_tabulate2 [OF len rows] masked_scores_of_def .
qed

lemma Attention_scores_shape:
  assumes wf: "wf_Attention fs hs a" and x: "rows_of_length fs x"
  shows "\<exists>S v. Attention_scores a x = Inr (S, v) \<and> length S = length x
           \<and> rows_of_length (length x) S"
  using Attention_scores_closed [OF wf x] by (simp add: rows_of_length_tabulate2)

lemma Attention_attn_weights_closed:
  assumes wf: "wf_Attention fs hs a" and x: "rows_of_length fs x"
    and m: "mask_fits (length x) msk"
  shows "Attention_attn_weights a x msk =
     Inr (softmax (masked_scores a x msk), map (Linear_row (value_att a)) x,
          if causal_att a then a\<lparr>causal_mask_att := Some (tril_ones (length x))\<rparr> else a)"
proof -
  have cache: "cache_ok a"
    using wf by (simp add: wf_Attention_def)
  show ?thesis
    by (simp only: Attention_attn_weights_def Attention_scores_closed [OF wf x] then_do_Inr
        case_prod_conv Attention_masked_softmax_tabulate2 [OF cache m] masked_scores_def)
qed

text \<open>The forward passes through their stages: the scores, the masks with the softmax,
  the product with the values.\<close>

lemma Attention_forward_stages:
  "Attention_forward a x msk =
     then_do (Attention_scores a x) (\<lambda>(scores, v).
     then_do (Attention_masked_softmax a (length x) scores msk) (\<lambda>(attn_weights, a').
     then_do (matmul attn_weights v) (\<lambda>output. Inr (output, a'))))"
  by (cases "Attention_scores a x")
    (auto simp: Attention_forward_def Attention_attn_weights_def then_do_def
      split: sum.splits prod.splits)

lemma attention_stages:
  "attention query key val msk dropout =
     then_do (attention_scaled_scores query key) (\<lambda>scores.
     then_do (attention_fill scores msk) (\<lambda>filled.
     then_do
       (Inr (case dropout of
               None \<Rightarrow> map softmax filled
             | Some d \<Rightarrow> Dropout_forward3 d (map softmax filled))) (\<lambda>attention_scores.
     then_do (if length attention_scores = length val
              then sequence_err (map2 matmul attention_scores val)
              else Inl RuntimeError) (\<lambda>out.
       Inr (out, attention_scores)))))"
  by (cases "attention_scaled_scores query key")
    (simp_all add: attention_def attention_masked_scores_def)

section \<open>Masked scores and their softmax\<close>

lemma is_fin_imp_fin_or_ninf: "is_fin x \<Longrightarrow> fin_or_ninf x"
  by (cases x) simp_all

lemma masked_scores_row:
  assumes "i < length x"
  shows "masked_scores a x msk ! i =
     map (\<lambda>j. if may_attend a (length x) msk i j
              then fmul (dot (Linear_row (query_att a) (x ! i)) (Linear_row (key_att a) (x ! j)))
                     (scale_att a)
              else NInf) [0..<length x]"
  using assms by (simp add: masked_scores_def nth_tabulate2)

lemma length_masked_scores [simp]: "length (masked_scores a x msk) = length x"
  by (simp add: masked_scores_def)

lemma masked_scores_of_row:
  assumes "i < L"
  shows "masked_scores_of a L S msk ! i =
     map (\<lambda>j. if may_attend a L msk i j then S ! i ! j else NInf) [0..<L]"
  using assms by (simp add: masked_scores_of_def nth_tabulate2)

lemma length_masked_scores_of [simp]: "length (masked_scores_of a L S msk) = L"
  by (simp add: masked_scores_of_def)

lemma finite_matrix_entry:
  assumes "finite_matrix S" and "i < length S" and "j < length (S ! i)"
  shows "is_fin (S ! i ! j)"
  using assms by (simp add: finite_matrix_def list_all_length)

lemma masked_scores_of_row_fin_or_ninf:
  assumes "finite_matrix S" and "length S = L" and "rows_of_length L S" and "i < L"
  shows "list_all fin_or_ninf (masked_scores_of a L S msk ! i)"
proof -
  have "is_fin (S ! i ! j)" if "j < L" for j
  proof (rule finite_matrix_entry [OF assms(1)])
    show "i < length S" using assms(2,4) by simp
    then have "length (S ! i) = L"
      using assms(3) by (simp add: rows_of_length_def list_all_length)
    then show "j < length (S ! i)" using that by simp
  qed
  then show ?thesis
    by (simp add: masked_scores_of_row [OF assms(4)] list_all_length is_fin_imp_fin_or_ninf)
qed

lemma masked_scores_of_row_has_fin:
  assumes "finite_matrix S" and "length S = L" and "rows_of_length L S" and "i < L"
    and "j < L" and "may_attend a L msk i j"
  shows "\<exists>s \<in> set (masked_scores_of a L S msk ! i). is_fin s"
proof -
  let ?F = "\<lambda>j. if may_attend a L msk i j then S ! i ! j else NInf"
  have "i < length S" using assms(2,4) by simp
  moreover from this have "length (S ! i) = L"
    using assms(3) by (simp add: rows_of_length_def list_all_length)
  ultimately have "is_fin (S ! i ! j)"
    using assms(1,5) by (simp add: finite_matrix_entry)
  then have "is_fin (?F j)"
    using assms(6) by simp
  moreover have "?F j \<in> set (masked_scores_of a L S msk ! i)"
    using assms(5) by (simp add: masked_scores_of_row [OF assms(4)])
  ultimately show ?thesis ..
qed

lemma masked_scores_of_row_closed:
  assumes "i < L" and "\<forall>j < L. \<not> may_attend a L msk i j"
  shows "masked_scores_of a L S msk ! i = replicate L NInf"
proof -
  have "map (\<lambda>j. if may_attend a L msk i j then S ! i ! j else NInf) [0..<L]
      = map (\<lambda>j. NInf) [0..<L]"
    using assms(2) by simp
  then show ?thesis
    by (simp add: masked_scores_of_row [OF assms(1)] map_replicate_const)
qed

lemma softmax_nth: "i < length S \<Longrightarrow> softmax S ! i = softmax_row (S ! i)"
  by (simp add: softmax_def)

lemma length_softmax [simp]: "length (softmax S) = length S"
  by (simp add: softmax_def)

lemma wf_Attention_after:
  "wf_Attention fs hs a \<Longrightarrow>
     wf_Attention fs hs (if causal_att a then a\<lparr>causal_mask_att := Some (tril_ones n)\<rparr> else a)"
  by (simp add: wf_Attention_def cache_ok_def)

lemma cache_ok_after:
  "cache_ok a \<Longrightarrow>
     cache_ok (if causal_att a then a\<lparr>causal_mask_att := Some (tril_ones n)\<rparr> else a)"
  by (simp add: cache_ok_def)

lemma wf_attention_example: "wf_Attention 1 1 (attention_example c)"
  by (simp add: wf_Attention_def attention_example_def linear_1x1_def wf_Linear_def
      rows_of_length_def cache_ok_def)

lemma cache_ok_attention_example: "cache_ok (attention_example c)"
  by (simp add: attention_example_def cache_ok_def)

lemma upt_2': "[0..<Suc (Suc 0)] = [0, Suc 0]"
  by (simp add: upt_rec)

lemma masked_scores_example:
  "masked_scores (attention_example True) [[Fin 0], [Fin 0]] (Some [Fin 0, Fin 1]) =
     [[NInf, NInf], [NInf, Fin 0]]"
  by (simp add: masked_scores_def tabulate2_def may_attend_def key_open_def feq0_def
      attention_example_def linear_1x1_def Linear_row_def dot_def upt_2')

lemma softmax_row_NInf2: "softmax_row [NInf, NInf] = [NaN, NaN]"
  by (simp add: softmax_row_def fsub_def)

lemma softmax_row_NInf_Fin: "softmax_row [NInf, Fin 0] = [Fin 0, Fin 1]"
  by (simp add: softmax_row_def fsub_def)



lemma Attention_masked_softmax_rows:
  assumes cache: "cache_ok a" and len: "length S = L" and rows: "rows_of_length L S"
    and fin: "finite_matrix S" and m: "mask_fits L msk"
  shows "\<exists>W a'. Attention_masked_softmax a L S msk = Inr (W, a')
           \<and> cache_ok a' \<and> length W = L
           \<and> (\<forall>i < L. length (W ! i) = L
                \<and> ((\<exists>j < L. may_attend a L msk i j) \<longrightarrow>
                     prob_row (W ! i)
                     \<and> (\<forall>j < L. \<not> may_attend a L msk i j \<longrightarrow> W ! i ! j = Fin 0))
                \<and> (\<not> (\<exists>j < L. may_attend a L msk i j) \<longrightarrow> (\<forall>j < L. W ! i ! j = NaN)))"
proof -
  let ?S = "masked_scores_of a L S msk"
  let ?a' = "if causal_att a then a\<lparr>causal_mask_att := Some (tril_ones L)\<rparr> else a"
  have run: "Attention_masked_softmax a L S msk = Inr (softmax ?S, ?a')"
    using cache len rows m by (rule Attention_masked_softmax_closed)
  have ln: "length (?S ! i) = L" if "i < L" for i
    using that by (simp add: masked_scores_of_row)
  have open_row: "prob_row (softmax ?S ! i)
      \<and> (\<forall>j < L. \<not> may_attend a L msk i j \<longrightarrow> softmax ?S ! i ! j = Fin 0)"
    if i: "i < L" and ex: "\<exists>j < L. may_attend a L msk i j" for i
  proof -
    from ex obtain k where k: "k < L" and att: "may_attend a L msk i k" by blast
    have fo: "list_all fin_or_ninf (?S ! i)"
      using fin len rows i by (rule masked_scores_of_row_fin_or_ninf)
    have hf: "\<exists>s \<in> set (?S ! i). is_fin s"
      using fin len rows i k att by (rule masked_scores_of_row_has_fin)
    have "softmax_row (?S ! i) ! j = Fin 0" if j: "j < L" and no: "\<not> may_attend a L msk i j" for j
    proof (rule softmax_row_masked_zero [OF fo hf])
      show "j < length (?S ! i)" using j ln [OF i] by simp
      show "?S ! i ! j = NInf" using j no by (simp add: masked_scores_of_row [OF i])
    qed
    then show ?thesis
      using i softmax_row_prob [OF fo hf] by (simp add: softmax_nth)
  qed
  have closed_row: "\<forall>j < L. softmax ?S ! i ! j = NaN"
    if i: "i < L" and no: "\<not> (\<exists>j < L. may_attend a L msk i j)" for i
  proof -
    have "?S ! i = replicate L NInf"
      using i no by (intro masked_scores_of_row_closed) simp_all
    moreover have "0 < L" using i by simp
    ultimately show ?thesis
      using i by (simp add: softmax_nth softmax_row_all_NInf)
  qed
  have "length (softmax ?S ! i) = L" if "i < L" for i
    using that ln [OF that] by (simp add: softmax_nth)
  with run open_row closed_row cache_ok_after [OF cache, of L] show ?thesis
    by simp
qed

section \<open>The in-place fill of \<open>MultiHeadAttentionBlock\<close>\<close>







section \<open>Causal attention\<close>

text \<open>
  C1, as the code has it. In causal mode, on the scores of a sequence of any length \<open>L\<close>
  (an \<open>L\<close> by \<open>L\<close> matrix of real numbers, as the projections and the product have left
  them; scores that have overflowed to an infinity are outside the statement), with or
  without a user mask that fits the sequence: the masking and the softmax of the forward
  pass of \<open>Attention\<close> return the weights without an error and leave the lower triangle
  of size \<open>L\<close> in the buffer. For every query position \<open>i\<close> for which the user's mask
  leaves open a key position \<open>k \<le> i\<close> (always so without a user mask), the weight from
  \<open>i\<close> to every key position \<open>j > i\<close> is exactly \<open>0\<close>. For a query position whose key
  positions \<open>k \<le> i\<close> are all closed by the user's mask, every weight of the row is NaN.
\<close>

theorem causal_attention_weights_zero_after_query:
  assumes "cache_ok a" and "causal_att a"
    and "length S = L" and "rows_of_length L S" and "finite_matrix S"
    and "mask_fits L msk"
  shows "\<exists>W a'. Attention_masked_softmax a L S msk = Inr (W, a')
           \<and> cache_ok a' \<and> causal_mask_att a' = Some (tril_ones L) \<and> length W = L
           \<and> (\<forall>i < L. length (W ! i) = L
                \<and> ((\<exists>k \<le> i. key_open L msk k) \<longrightarrow>
                     (\<forall>j. i < j \<and> j < L \<longrightarrow> W ! i ! j = Fin 0))
                \<and> (\<not> (\<exists>k \<le> i. key_open L msk k) \<longrightarrow> (\<forall>j < L. W ! i ! j = NaN)))
           \<and> (msk = None \<longrightarrow> (\<forall>i j. i < j \<and> j < L \<longrightarrow> W ! i ! j = Fin 0))"
proof -
  have att: "may_attend a L msk i j \<longleftrightarrow> j \<le> i \<and> key_open L msk j" for i j
    using assms(2) by (simp add: may_attend_def)
  have ex: "(\<exists>j < L. may_attend a L msk i j) \<longleftrightarrow> (\<exists>k \<le> i. key_open L msk k)" if "i < L" for i
  proof
    assume "\<exists>j < L. may_attend a L msk i j"
    then show "\<exists>k \<le> i. key_open L msk k"
      by (auto simp: att)
  next
    assume "\<exists>k \<le> i. key_open L msk k"
    then obtain k where k: "k \<le> i" "key_open L msk k" by blast
    then have "k < L" using that by simp
    with k show "\<exists>j < L. may_attend a L msk i j"
      by (auto simp: att)
  qed
  obtain W a' where run: "Attention_masked_softmax a L S msk = Inr (W, a')"
    and cache: "cache_ok a'" and len: "length W = L"
    and rows: "\<forall>i < L. length (W ! i) = L
                \<and> ((\<exists>j < L. may_attend a L msk i j) \<longrightarrow>
                     prob_row (W ! i)
                     \<and> (\<forall>j < L. \<not> may_attend a L msk i j \<longrightarrow> W ! i ! j = Fin 0))
                \<and> (\<not> (\<exists>j < L. may_attend a L msk i j) \<longrightarrow> (\<forall>j < L. W ! i ! j = NaN))"
    using Attention_masked_softmax_rows [OF assms(1,3,4,5,6)] by blast
  have buf: "causal_mask_att a' = Some (tril_ones L)"
    using run assms(2) Attention_masked_softmax_closed [OF assms(1,3,4,6)] by auto
  have zero: "W ! i ! j = Fin 0"
    if "i < L" and "\<exists>k \<le> i. key_open L msk k" and "i < j" and "j < L" for i j
  proof -
    have "\<not> may_attend a L msk i j"
      using that(3) by (simp add: att)
    then show ?thesis
      using rows that ex [OF that(1)] by blast
  qed
  have nan: "W ! i ! j = NaN"
    if "i < L" and "\<not> (\<exists>k \<le> i. key_open L msk k)" and "j < L" for i j
    using rows that ex [OF that(1)] by blast
  have none: "W ! i ! j = Fin 0" if "msk = None" and "i < j" and "j < L" for i j
  proof -
    have "key_open L msk i"
      using that(1) by (simp add: key_open_def)
    then have "\<exists>k \<le> i. key_open L msk k"
      by blast
    then show ?thesis
      using zero [of i j] that by simp
  qed
  have "\<forall>i < L. length (W ! i) = L
                \<and> ((\<exists>k \<le> i. key_open L msk k) \<longrightarrow>
                     (\<forall>j. i < j \<and> j < L \<longrightarrow> W ! i ! j = Fin 0))
                \<and> (\<not> (\<exists>k \<le> i. key_open L msk k) \<longrightarrow> (\<forall>j < L. W ! i ! j = NaN))"
    using rows zero nan by blast
  moreover have "msk = None \<longrightarrow> (\<forall>i j. i < j \<and> j < L \<longrightarrow> W ! i ! j = Fin 0)"
    using none by blast
  ultimately show ?thesis
    using run cache buf len by blast
qed

theorem causal_attention_witness:
  "cache_ok (attention_example True) \<and> causal_att (attention_example True)
   \<and> (\<exists>W a'. Attention_masked_softmax (attention_example True) 2
                 [[Fin 1, Fin 5], [Fin 2, Fin 3]] None = Inr (W, a')
          \<and> W ! 0 ! 1 = Fin 0)
   \<and> (\<exists>W a'. Attention_masked_softmax (attention_example True) 2
                 [[Fin 1, Fin 5], [Fin 2, Fin 3]] (Some [Fin 0, Fin 1]) = Inr (W, a')
          \<and> W ! 0 ! 0 = NaN \<and> W ! 0 ! 1 = NaN)"
proof -
  let ?S = "[[Fin 1, Fin 5], [Fin 2, Fin 3]]"
  have c: "causal_att (attention_example True)"
    by (simp add: attention_example_def)
  have l: "length ?S = 2" and r: "rows_of_length 2 ?S" and f: "finite_matrix ?S"
    and m1: "mask_fits 2 None" and m2: "mask_fits 2 (Some [Fin 0, Fin 1])"
    by (simp_all add: rows_of_length_def finite_matrix_def mask_fits_def)
  from causal_attention_weights_zero_after_query [OF cache_ok_attention_example c l r f m1]
  obtain W a' where
    run: "Attention_masked_softmax (attention_example True) 2 ?S None = Inr (W, a')"
    and zero: "\<forall>i j. i < j \<and> j < 2 \<longrightarrow> W ! i ! j = Fin 0"
    by blast
  from zero have w: "W ! 0 ! 1 = Fin 0"
    by simp
  from causal_attention_weights_zero_after_query [OF cache_ok_attention_example c l r f m2]
  obtain W' a'' where
    run': "Attention_masked_softmax (attention_example True) 2 ?S (Some [Fin 0, Fin 1])
             = Inr (W', a'')"
    and rows: "\<forall>i < 2. length (W' ! i) = 2
                \<and> ((\<exists>k \<le> i. key_open 2 (Some [Fin 0, Fin 1]) k) \<longrightarrow>
                     (\<forall>j. i < j \<and> j < 2 \<longrightarrow> W' ! i ! j = Fin 0))
                \<and> (\<not> (\<exists>k \<le> i. key_open 2 (Some [Fin 0, Fin 1]) k) \<longrightarrow>
                     (\<forall>j < 2. W' ! i ! j = NaN))"
    by blast
  have "\<not> (\<exists>k \<le> 0. key_open 2 (Some [Fin 0, Fin 1]) k)"
    by (simp add: key_open_def feq0_def)
  with rows have "\<forall>j < 2. W' ! 0 ! j = NaN"
    by simp
  then have w': "W' ! 0 ! 0 = NaN \<and> W' ! 0 ! 1 = NaN"
    by simp
  from run w run' w' c cache_ok_attention_example show ?thesis
    by blast
qed

text \<open>
  The claim fails for a user mask that closes every key a query may see. On two
  positions in causal mode with the mask \<open>[0, 1]\<close>, query \<open>0\<close> has no open key: its row
  of scores is \<open>-inf\<close> throughout and its weights, also the one to key \<open>1\<close>, are NaN.
\<close>

theorem causal_attention_counterexample:
  "Attention_attn_weights (attention_example True) [[Fin 0], [Fin 0]] (Some [Fin 0, Fin 1]) =
     Inr ([[NaN, NaN], [Fin 0, Fin 1]], [[Fin 0], [Fin 0]],
          (attention_example True)\<lparr>causal_mask_att := Some [[True, False], [True, True]]\<rparr>)"
proof -
  have "Attention_attn_weights (attention_example True) [[Fin 0], [Fin 0]] (Some [Fin 0, Fin 1]) =
     Inr (softmax (masked_scores (attention_example True) [[Fin 0], [Fin 0]] (Some [Fin 0, Fin 1])),
          map (Linear_row (value_att (attention_example True))) [[Fin 0], [Fin 0]],
          if causal_att (attention_example True)
          then (attention_example True)\<lparr>causal_mask_att := Some (tril_ones (length [[Fin 0], [Fin 0]]))\<rparr>
          else attention_example True)"
    by (rule Attention_attn_weights_closed [OF wf_attention_example])
      (simp_all add: rows_of_length_def mask_fits_def)
  moreover have "softmax (masked_scores (attention_example True) [[Fin 0], [Fin 0]]
      (Some [Fin 0, Fin 1])) = [[NaN, NaN], [Fin 0, Fin 1]]"
    by (simp add: masked_scores_example softmax_def softmax_row_NInf2 softmax_row_NInf_Fin)
  moreover have "map (Linear_row (value_att (attention_example True))) [[Fin 0], [Fin 0]]
      = [[Fin 0], [Fin 0]]"
    by (simp add: attention_example_def linear_1x1_def Linear_row_def dot_def)
  moreover have "causal_att (attention_example True)"
    by (simp add: attention_example_def)
  moreover have "tril_ones (length [[Fin 0], [Fin 0]]) = [[True, False], [True, True]]"
    by (simp add: tril_ones_def upt_2')
  ultimately show ?thesis
    by (simp only: if_True)
qed

section \<open>Rows of attention weights are probabilities\<close>



section \<open>Shapes through the forecasting model\<close>

lemma rows_of_length_map:
  "rows_of_length n (map f X) \<longleftrightarrow> (\<forall>r \<in> set X. length (f r) = n)"
  by (simp add: rows_of_length_def list_all_iff)

lemma rows_of_length_shape: "rows_of_length n X \<longleftrightarrow> map length X = replicate (length X) n"
proof
  assume "rows_of_length n X"
  then show "map length X = replicate (length X) n"
    by (induction X) (simp_all add: rows_of_length_def)
next
  assume "map length X = replicate (length X) n"
  then have "set (map length X) \<subseteq> {n}"
    by (metis set_replicate_conv_if empty_subsetI subset_refl)
  then show "rows_of_length n X"
    by (auto simp: rows_of_length_def list_all_iff)
qed

lemma rows_of_length_Dropout_forward:
  "rows_of_length n (Dropout_forward d X) \<longleftrightarrow> rows_of_length n X"
  by (simp add: rows_of_length_shape Dropout_forward_shape)

lemma Linear_forward_shape:
  assumes "wf_Linear fin fout l" and "rows_of_length fin X"
  shows "Linear_forward l X = Inr (map (Linear_row l) X)"
    and "rows_of_length fout (map (Linear_row l) X)"
  using assms
  by (simp_all add: Linear_forward_ok wf_Linear_def rows_of_length_map
      Linear_row_length [OF assms(1)])

lemma length_transpose_rect:
  "X \<noteq> [] \<Longrightarrow> rows_of_length n X \<Longrightarrow> length (transpose X) = n"
proof -
  assume ne: "X \<noteq> []" and r: "rows_of_length n X"
  have "foldr (\<lambda>xs. max (length xs)) X 0 = n"
    using ne r
  proof (induction X)
    case Nil
    then show ?case by simp
  next
    case (Cons a X)
    then show ?case
      by (cases "X = []") (simp_all add: rows_of_length_def)
  qed
  then show ?thesis
    by (simp add: length_transpose)
qed

lemma matmul_ok:
  "rows_of_length (length B) A \<Longrightarrow>
     matmul A B = Inr (map (\<lambda>a. map (\<lambda>c. dot a c) (transpose B)) A)"
  by (simp add: matmul_def)

lemma softmax_masked_scores_rows:
  "rows_of_length (length x) (softmax (masked_scores a x msk))"
  by (simp add: rows_of_length_def list_all_length softmax_nth masked_scores_row)

lemma Attention_forward_ok:
  assumes wf: "wf_Attention fs hs a" and x: "rows_of_length fs x"
    and m: "mask_fits (length x) msk"
  shows "\<exists>out a'. Attention_forward a x msk = Inr (out, a') \<and> length out = length x
           \<and> rows_of_length hs out \<and> wf_Attention fs hs a'"
proof -
  let ?W = "softmax (masked_scores a x msk)"
  let ?v = "map (Linear_row (value_att a)) x"
  let ?a' = "if causal_att a then a\<lparr>causal_mask_att := Some (tril_ones (length x))\<rparr> else a"
  let ?out = "map (\<lambda>w. map (\<lambda>c. dot w c) (transpose ?v)) ?W"
  have wfv: "wf_Linear fs hs (value_att a)"
    using wf by (simp add: wf_Attention_def)
  have run: "Attention_attn_weights a x msk = Inr (?W, ?v, ?a')"
    using wf x m by (rule Attention_attn_weights_closed)
  have "rows_of_length (length ?v) ?W"
    using softmax_masked_scores_rows [of x a msk] by simp
  then have mm: "matmul ?W ?v = Inr ?out"
    by (rule matmul_ok)
  have fwd: "Attention_forward a x msk = Inr (?out, ?a')"
    by (simp add: Attention_forward_def run mm)
  have rows: "rows_of_length hs ?out"
  proof (cases "x = []")
    case True
    then show ?thesis by (simp add: rows_of_length_def softmax_def masked_scores_def tabulate2_def)
  next
    case False
    have "rows_of_length hs ?v"
      using wfv by (simp add: rows_of_length_map Linear_row_length)
    moreover have "?v \<noteq> []" using False by simp
    ultimately have "length (transpose ?v) = hs"
      by (simp add: length_transpose_rect)
    then show ?thesis
      by (simp add: rows_of_length_map)
  qed
  show ?thesis
    using fwd rows wf_Attention_after [OF wf, of "length x"] by simp
qed

lemma concat_rows_length:
  "(\<And>o2. o2 \<in> set outs \<Longrightarrow> length (f o2) = n) \<Longrightarrow> length (concat (map f outs)) = length outs * n"
  by (induction outs) simp_all

lemma cat_last_ok:
  assumes "outs \<noteq> []" and "list_all (\<lambda>o2. length o2 = L \<and> rows_of_length n o2) outs"
  shows "\<exists>c. cat_last outs = Inr c \<and> length c = L \<and> rows_of_length (length outs * n) c"
proof -
  from assms(1) obtain o1 rest where outs: "outs = o1 # rest"
    by (cases outs) auto
  have len: "length o2 = L" and rows: "rows_of_length n o2" if "o2 \<in> set outs" for o2
    using assms(2) that by (simp_all add: list_all_iff)
  have l1: "length o1 = L" using len [of o1] outs by simp
  have all: "list_all (\<lambda>o2. length o2 = length o1) outs"
    using len l1 by (simp add: list_all_iff)
  let ?c = "map (\<lambda>t. concat (map (\<lambda>o2. o2 ! t) outs)) [0..<L]"
  have run: "cat_last outs = Inr ?c"
    using all l1 by (simp add: cat_last_def outs)
  have "length (concat (map (\<lambda>o2. o2 ! t) outs)) = length outs * n" if t: "t < L" for t
  proof (rule concat_rows_length)
    fix o2 assume o2: "o2 \<in> set outs"
    then have "t < length o2" using len t by simp
    then show "length (o2 ! t) = n"
      using rows [OF o2] by (simp add: rows_of_length_def list_all_length)
  qed
  then have "rows_of_length (length outs * n) ?c"
    by (simp add: rows_of_length_def list_all_iff)
  with run show ?thesis by simp
qed

lemma MultiHeadAttention_forward_ok:
  assumes wf: "wf_MultiHeadAttention fs hs m" and x: "rows_of_length fs x"
  shows "\<exists>y m'. MultiHeadAttention_forward m x None = Inr (y, m') \<and> length y = length x
           \<and> rows_of_length fs y"
proof -
  let ?P = "\<lambda>r. length (fst r) = length x \<and> rows_of_length hs (fst r)"
  have heads: "heads_mha m \<noteq> []" and each: "list_all (wf_Attention fs hs) (heads_mha m)"
    and outp: "wf_Linear (length (heads_mha m) * hs) fs (output_projection_mha m)"
    using wf by (simp_all add: wf_MultiHeadAttention_def)
  have "\<exists>r. Attention_forward head x None = Inr r \<and> ?P r" if "head \<in> set (heads_mha m)" for head
  proof -
    have "wf_Attention fs hs head" using each that by (simp add: list_all_iff)
    from Attention_forward_ok [OF this x, of None] show ?thesis
      by (auto simp: mask_fits_def)
  qed
  then obtain rs where rs: "sequence_err (map (\<lambda>head. Attention_forward head x None) (heads_mha m)) = Inr rs"
    and lrs: "length rs = length (heads_mha m)" and prs: "list_all ?P rs"
    using sequence_err_map_ex [of "heads_mha m" "\<lambda>head. Attention_forward head x None" ?P]
    by blast
  have "map fst rs \<noteq> []" using heads lrs by auto
  moreover have "list_all (\<lambda>o2. length o2 = length x \<and> rows_of_length hs o2) (map fst rs)"
    using prs by (simp add: list_all_iff)
  ultimately obtain c where c: "cat_last (map fst rs) = Inr c" and lc: "length c = length x"
    and rc: "rows_of_length (length (map fst rs) * hs) c"
    using cat_last_ok [of "map fst rs" "length x" hs] by blast
  have rc': "rows_of_length (length (heads_mha m) * hs) c"
    using rc lrs by simp
  have "MultiHeadAttention_forward m x None =
      Inr (map (Linear_row (output_projection_mha m)) c, m\<lparr>heads_mha := map snd rs\<rparr>)"
    by (simp add: MultiHeadAttention_forward_def rs c Linear_forward_shape(1) [OF outp rc'])
  moreover have "rows_of_length fs (map (Linear_row (output_projection_mha m)) c)"
    using Linear_forward_shape(2) [OF outp rc'] .
  ultimately show ?thesis
    using lc by simp
qed

lemma FeedForward_forward_ok:
  assumes wf: "wf_FeedForward n f" and x: "rows_of_length n x"
  shows "\<exists>y. FeedForward_forward f x = Inr y \<and> length y = length x \<and> rows_of_length n y"
proof -
  let ?k = "out_features (net0_ff f)"
  have l0: "wf_Linear n ?k (net0_ff f)" and l3: "wf_Linear ?k n (net3_ff f)"
    using wf by (simp_all add: wf_FeedForward_def)
  let ?h = "map (Linear_row (net0_ff f)) x"
  let ?d = "Dropout_forward (net2_ff f) (map (map frelu) ?h)"
  have h: "Linear_forward (net0_ff f) x = Inr ?h" and rh: "rows_of_length ?k ?h"
    using Linear_forward_shape [OF l0 x] by simp_all
  have "rows_of_length ?k (map (map frelu) ?h)"
    using rh by (simp add: rows_of_length_def list_all_iff)
  then have rd: "rows_of_length ?k ?d"
    by (simp add: rows_of_length_Dropout_forward)
  have "FeedForward_forward f x = Inr (map (Linear_row (net3_ff f)) ?d)"
    unfolding FeedForward_forward_def h then_do_Inr Linear_forward_shape(1) [OF l3 rd] ..
  moreover have "rows_of_length n (map (Linear_row (net3_ff f)) ?d)"
    using Linear_forward_shape(2) [OF l3 rd] .
  ultimately show ?thesis by simp
qed

lemma length_concat_rect: "rows_of_length T x \<Longrightarrow> length (concat x) = length x * T"
  by (induction x) (simp_all add: rows_of_length_def)

lemma tensor_add_ok:
  assumes "length A = L" and "rows_of_length n A" and "length B = L" and "rows_of_length n B"
  shows "\<exists>C. tensor_add A B = Inr C \<and> length C = L \<and> rows_of_length n C"
proof -
  let ?C = "map2 (\<lambda>a b. map2 fadd a b) A B"
  have "same_shape A B"
    using assms by (simp add: same_shape_def rows_of_length_shape)
  then have run: "tensor_add A B = Inr ?C"
    by (rule tensor_add_same_shape)
  have "length r = n" if "r \<in> set ?C" for r
  proof -
    from that obtain a b where ab: "(a, b) \<in> set (zip A B)" and r: "r = map2 fadd a b"
      by auto
    have "length a = n" "length b = n"
      using assms(2,4) set_zip_leftD [OF ab] set_zip_rightD [OF ab]
      by (simp_all add: rows_of_length_def list_all_iff)
    then show ?thesis by (simp add: r)
  qed
  then have "rows_of_length n ?C"
    by (simp add: rows_of_length_def list_all_iff)
  with run assms(1,3) show ?thesis by simp
qed

lemma chunk_length:
  assumes "length P = B * T" and "b < B"
  shows "length (take T (drop (b * T) P)) = T"
proof -
  have "Suc b \<le> B" using assms(2) by simp
  then have "Suc b * T \<le> B * T" by (rule mult_le_mono1)
  then have "b * T + T \<le> B * T" by simp
  then show ?thesis using assms(1) by simp
qed

lemma chunk_rows:
  "rows_of_length n P \<Longrightarrow> rows_of_length n (take T (drop k P))"
  by (auto simp: rows_of_length_def list_all_iff dest!: in_set_takeD in_set_dropD)

lemma TimeSeriesTransformer_embed_ok:
  assumes wf: "wf_TimeSeriesTransformer n hs m" and ne: "x \<noteq> []"
    and x: "rows_of_length T x" and T: "0 < T"
    and bs: "T \<le> length (position_embedding_table_tst m)"
  shows "\<exists>xs. TimeSeriesTransformer_embed m x = Inr xs \<and> length xs = length x
           \<and> list_all (\<lambda>xb. length xb = T \<and> rows_of_length n xb) xs"
proof -
  let ?B = "length x"
  let ?flat = "map (\<lambda>v. [v]) (concat x)"
  let ?proj = "map (Linear_row (input_projection_tst m)) ?flat"
  let ?x3 = "map (\<lambda>b. take T (drop (b * T) ?proj)) [0..<?B]"
  let ?pos = "map (\<lambda>i. position_embedding_table_tst m ! i) [0..<T]"
  have n: "0 < n" and tab: "rows_of_length n (position_embedding_table_tst m)"
    and ip: "wf_Linear 1 n (input_projection_tst m)"
    using wf by (simp_all add: wf_TimeSeriesTransformer_def)
  have Tx: "(case x of [] \<Rightarrow> 0 | r # _ \<Rightarrow> length r) = T"
    using ne x by (cases x) (simp_all add: rows_of_length_def)
  have rf: "rows_of_length 1 ?flat"
    by (simp add: rows_of_length_def list_all_iff)
  have proj: "Linear_forward (input_projection_tst m) ?flat = Inr ?proj"
    by (rule Linear_forward_shape(1) [OF ip rf])
  have rproj: "rows_of_length n ?proj"
    by (rule Linear_forward_shape(2) [OF ip rf])
  have lproj: "length ?proj = ?B * T"
    using length_concat_rect [OF x] by simp
  have "concat ?proj \<noteq> []"
  proof -
    define P where "P = ?proj"
    have "0 < length P"
      unfolding P_def lproj using ne T by simp
    then obtain r rest where pr: "P = r # rest"
      by (cases P) auto
    have "rows_of_length n P"
      unfolding P_def by (rule rproj)
    then have "length r = n"
      by (simp add: pr rows_of_length_def)
    then have "r \<noteq> []" using n by auto
    then have "concat P \<noteq> []" by (simp add: pr)
    then show ?thesis
      unfolding P_def .
  qed
  then have view: "view_B_T ?B T ?proj = Inr ?x3"
    by (simp add: view_B_T_def)
  have "list_all (\<lambda>i. i < length (position_embedding_table_tst m)) [0..<T]"
    using bs by (simp add: list_all_iff)
  then have emb: "Embedding_forward (position_embedding_table_tst m) [0..<T] = Inr ?pos"
    by (simp add: Embedding_forward_def)
  have lpos: "length ?pos = T" by simp
  have rpos: "rows_of_length n ?pos"
    using tab bs by (simp add: rows_of_length_def list_all_length)
  have "\<exists>y. tensor_add xb ?pos = Inr y \<and> length y = T \<and> rows_of_length n y"
    if "xb \<in> set ?x3" for xb
  proof -
    from that obtain b where b: "b < ?B" and xb: "xb = take T (drop (b * T) ?proj)"
      by auto
    have "length xb = T"
      unfolding xb using lproj b by (rule chunk_length)
    moreover have "rows_of_length n xb"
      unfolding xb using rproj by (rule chunk_rows)
    ultimately show ?thesis
      using lpos rpos by (intro tensor_add_ok) simp_all
  qed
  then obtain xs where "sequence_err (map (\<lambda>xb. tensor_add xb ?pos) ?x3) = Inr xs"
    and "length xs = length ?x3" and "list_all (\<lambda>y. length y = T \<and> rows_of_length n y) xs"
    using sequence_err_map_ex [of ?x3 "\<lambda>xb. tensor_add xb ?pos"
        "\<lambda>y. length y = T \<and> rows_of_length n y"]
    by blast
  moreover have "TimeSeriesTransformer_embed m x = sequence_err (map (\<lambda>xb. tensor_add xb ?pos) ?x3)"
    unfolding TimeSeriesTransformer_embed_def Let_def Tx proj then_do_Inr view emb ..
  ultimately show ?thesis by simp
qed

lemma TimeSeriesTransformer_hidden_ok:
  assumes wf: "wf_TimeSeriesTransformer n hs m" and ne: "x \<noteq> []"
    and x: "rows_of_length T x" and T: "0 < T"
    and bs: "T \<le> length (position_embedding_table_tst m)"
  shows "\<exists>hid. TimeSeriesTransformer_hidden m x = Inr hid \<and> length hid = length x
           \<and> list_all (\<lambda>h. length h = T \<and> rows_of_length n h) hid"
proof -
  let ?P = "\<lambda>y. length y = T \<and> rows_of_length n y"
  have sa: "wf_MultiHeadAttention n hs (sa_heads_tst m)" and ff: "wf_FeedForward n (ffwd_tst m)"
    using wf by (simp_all add: wf_TimeSeriesTransformer_def)
  obtain xs where xs: "TimeSeriesTransformer_embed m x = Inr xs" and lxs: "length xs = length x"
    and pxs: "list_all ?P xs"
    using TimeSeriesTransformer_embed_ok [OF assms] by blast
  have "\<exists>y. then_do (MultiHeadAttention_forward (sa_heads_tst m) xb None) (\<lambda>(y, _). Inr y) = Inr y
          \<and> ?P y" if "xb \<in> set xs" for xb
  proof -
    have "?P xb" using pxs that by (simp add: list_all_iff)
    then obtain y m' where "MultiHeadAttention_forward (sa_heads_tst m) xb None = Inr (y, m')"
      and "length y = length xb" and "rows_of_length n y"
      using MultiHeadAttention_forward_ok [OF sa, of xb] by blast
    with \<open>?P xb\<close> show ?thesis by simp
  qed
  then obtain ys where ys: "sequence_err (map (\<lambda>xb. then_do
        (MultiHeadAttention_forward (sa_heads_tst m) xb None) (\<lambda>(y, _). Inr y)) xs) = Inr ys"
    and lys: "length ys = length xs" and pys: "list_all ?P ys"
    using sequence_err_map_ex [of xs "\<lambda>xb. then_do
        (MultiHeadAttention_forward (sa_heads_tst m) xb None) (\<lambda>(y, _). Inr y)" ?P]
    by blast
  have "\<exists>h. FeedForward_forward (ffwd_tst m) y = Inr h \<and> ?P h" if "y \<in> set ys" for y
  proof -
    have "?P y" using pys that by (simp add: list_all_iff)
    then show ?thesis
      using FeedForward_forward_ok [OF ff, of y] by auto
  qed
  then obtain hid where "sequence_err (map (FeedForward_forward (ffwd_tst m)) ys) = Inr hid"
    and "length hid = length ys" and "list_all ?P hid"
    using sequence_err_map_ex [of ys "FeedForward_forward (ffwd_tst m)" ?P] by blast
  then show ?thesis
    using xs ys lxs lys by (simp add: TimeSeriesTransformer_hidden_def)
qed

lemma select_last_map: "h \<noteq> [] \<Longrightarrow> select_last (map f h) = Inr (f (last h))"
  by (cases h) (simp_all add: select_last_def last_map)

section \<open>What the constructors of the forecasting notebook establish\<close>

lemma sequence_err_map_Inr:
  "sequence_err (map f xs) = Inr ys \<Longrightarrow>
     length ys = length xs \<and> (\<forall>y \<in> set ys. \<exists>x \<in> set xs. f x = Inr y)"
proof (induction xs arbitrary: ys)
  case Nil
  then show ?case by simp
next
  case (Cons x xs)
  from Cons.prems obtain y ys' where y: "f x = Inr y" and r: "sequence_err (map f xs) = Inr ys'"
    and ys: "ys = y # ys'"
    by (auto split: sum.splits)
  from Cons.IH [OF r] y ys show ?case by auto
qed

lemma Linear_init_wf:
  "Linear_init g fin fout b = Inr l \<Longrightarrow> wf_Linear (nat fin) (nat fout) l"
  by (auto simp: Linear_init_def wf_Linear_def rows_of_length_def list_all_iff
      split: if_splits)

lemma Attention_init_wf:
  assumes "Attention_init g fs hs c = Inr a"
  shows "wf_Attention (nat fs) (nat hs) a \<and> 0 < hs"
proof -
  from assms obtain k q v where k: "Linear_init (sub_seed g 0) fs hs False = Inr k"
    and q: "Linear_init (sub_seed g 1) fs hs False = Inr q"
    and v: "Linear_init (sub_seed g 2) fs hs False = Inr v"
    and rest: "(if hs = 0 then Inl ZeroDivisionError
       else Inr \<lparr>key_att = k, query_att = q, value_att = v,
                 scale_att = Fin (1 / sqrt (real_of_int hs)),
                 causal_att = c, causal_mask_att = None\<rparr>) = Inr a"
    unfolding Attention_init_def then_do_eq_Inr by blast
  have "0 \<le> hs" using k by (simp add: Linear_init_def split: if_splits)
  moreover have "hs \<noteq> 0" using rest by (auto split: if_splits)
  ultimately have "0 < hs" by simp
  moreover have "wf_Attention (nat fs) (nat hs) a"
    using rest Linear_init_wf [OF k] Linear_init_wf [OF q] Linear_init_wf [OF v]
    by (auto simp: wf_Attention_def cache_ok_def split: if_splits)
  ultimately show ?thesis by simp
qed

lemma MultiHeadAttention_init_wf:
  assumes "MultiHeadAttention_init g nh hs fs = Inr m" and "0 < nh"
  shows "wf_MultiHeadAttention (nat fs) (nat hs) m \<and> 0 < hs"
proof -
  let ?f = "\<lambda>i. Attention_init (sub_seed g i) fs hs False"
  from assms(1) obtain heads op where heads: "sequence_err (map ?f [0..<nat nh]) = Inr heads"
    and op: "Linear_init (sub_seed g (nat nh)) (nh * hs) fs True = Inr op"
    and m: "m = \<lparr>heads_mha = heads, output_projection_mha = op\<rparr>"
    unfolding MultiHeadAttention_init_def then_do_eq_Inr by auto
  have len: "length heads = nat nh" and each: "\<forall>a \<in> set heads. \<exists>i \<in> set [0..<nat nh]. ?f i = Inr a"
    using sequence_err_map_Inr [OF heads] by simp_all
  have ne: "heads \<noteq> []" using len assms(2) by auto
  have wfh: "wf_Attention (nat fs) (nat hs) a \<and> 0 < hs" if "a \<in> set heads" for a
    using each that Attention_init_wf by blast
  from ne obtain a0 where "a0 \<in> set heads" by (cases heads) auto
  then have hs: "0 < hs" using wfh by blast
  have "nat (nh * hs) = length heads * nat hs"
    using assms(2) len by (simp add: nat_mult_distrib)
  then have "wf_Linear (length heads * nat hs) (nat fs) op"
    using Linear_init_wf [OF op] by simp
  then show ?thesis
    using ne wfh hs by (simp add: wf_MultiHeadAttention_def m list_all_iff)
qed

lemma FeedForward_init_wf:
  assumes "FeedForward_init g k n ef pr = Inr f"
  shows "wf_FeedForward (nat n) f"
proof -
  from assms obtain l0 d l3 where l0: "Linear_init (sub_seed g 0) n (n * ef) True = Inr l0"
    and l3: "Linear_init (sub_seed g 3) (n * ef) n True = Inr l3"
    and f: "f = \<lparr>net0_ff = l0, net2_ff = d, net3_ff = l3\<rparr>"
    unfolding FeedForward_init_def then_do_eq_Inr by auto
  have "out_features l0 = nat (n * ef)"
    using Linear_init_wf [OF l0] by (simp add: wf_Linear_def)
  then show ?thesis
    using Linear_init_wf [OF l0] Linear_init_wf [OF l3] by (simp add: wf_FeedForward_def f)
qed

lemma Embedding_init_shape:
  "Embedding_init g k d = Inr tab \<Longrightarrow> length tab = nat k \<and> rows_of_length (nat d) tab"
  by (auto simp: Embedding_init_def rows_of_length_def list_all_iff split: if_splits)

lemma TimeSeriesTransformer_init_wf:
  assumes "TimeSeriesTransformer_init g k n_embd block_size forecast_horizon = Inr m"
  shows "wf_TimeSeriesTransformer (nat n_embd) (nat (n_embd div 4)) m
         \<and> length (position_embedding_table_tst m) = nat block_size
         \<and> forecast_horizon_tst m = forecast_horizon"
proof -
  from assms obtain tab ip sa ff outp where
    tab: "Embedding_init (sub_seed g 0) block_size n_embd = Inr tab"
    and ip: "Linear_init (sub_seed g 1) 1 n_embd True = Inr ip"
    and sa: "MultiHeadAttention_init (sub_seed g 2) 4 (n_embd div 4) n_embd = Inr sa"
    and ff: "FeedForward_init (sub_seed g 3) k n_embd 4 (1 / 10) = Inr ff"
    and outp: "Linear_init (sub_seed g 4) n_embd forecast_horizon True = Inr outp"
    and m: "m = \<lparr>forecast_horizon_tst = forecast_horizon, position_embedding_table_tst = tab,
            input_projection_tst = ip, sa_heads_tst = sa, ffwd_tst = ff,
            output_projection_tst = outp\<rparr>"
    unfolding TimeSeriesTransformer_init_def then_do_eq_Inr by auto
  have wsa: "wf_MultiHeadAttention (nat n_embd) (nat (n_embd div 4)) sa" and hs: "0 < n_embd div 4"
    using MultiHeadAttention_init_wf [OF sa] by simp_all
  have n: "0 < n_embd" using hs by (simp add: pos_imp_zdiv_pos_iff)
  have fh: "0 \<le> forecast_horizon"
    using outp by (simp add: Linear_init_def split: if_splits)
  have "wf_Linear 1 (nat n_embd) ip"
    using Linear_init_wf [OF ip] by simp
  then show ?thesis
    using Embedding_init_shape [OF tab] wsa FeedForward_init_wf [OF ff] Linear_init_wf [OF outp]
      n fh
    by (simp add: wf_TimeSeriesTransformer_def m)
qed

lemma TimeSeriesTransformer_init_ok:
  assumes "4 \<le> n_embd" and "0 \<le> block_size" and "0 \<le> forecast_horizon"
  shows "\<exists>m. TimeSeriesTransformer_init g k n_embd block_size forecast_horizon = Inr m"
proof -
  have hs: "0 < n_embd div 4"
    using assms(1) by (simp add: pos_imp_zdiv_pos_iff)
  have "\<not> isl (TimeSeriesTransformer_init g k n_embd block_size forecast_horizon)"
    using assms hs
    by (simp add: TimeSeriesTransformer_init_def isl_then_do Embedding_init_def Linear_init_isl
        MultiHeadAttention_init_isl FeedForward_init_def Dropout_init_def)
  then show ?thesis
    by (cases "TimeSeriesTransformer_init g k n_embd block_size forecast_horizon") auto
qed

section \<open>The forecast\<close>

text \<open>An input without elements, the empty batch or the empty window, raises at the
  first \<^verbatim>\<open>view\<close>.\<close>

lemma forecast_empty_input_raises:
  "concat x = [] \<Longrightarrow> TimeSeriesTransformer_forward m x = Inl RuntimeError"
proof -
  assume e: "concat x = []"
  have "TimeSeriesTransformer_embed m x = Inl RuntimeError"
    unfolding TimeSeriesTransformer_embed_def Let_def e
    by (simp add: Linear_forward_def rows_of_length_def view_B_T_def)
  then show ?thesis
    by (simp add: TimeSeriesTransformer_forward_def TimeSeriesTransformer_hidden_def)
qed

text \<open>
  C8. For every well-formed forecasting model and every input of \<open>B \<ge> 1\<close> rows (the
  batch) and \<open>T\<close> columns (the window) with \<open>1 \<le> T \<le> block_size\<close>, the forward pass
  returns, without an error, a matrix of \<open>B\<close> rows and \<open>forecast_horizon\<close> columns; row
  \<open>b\<close> is the output projection applied to the last position of the hidden state of
  batch element \<open>b\<close> (the state after self-attention and the feed-forward network),
  and to no other position.
\<close>

theorem forecast_is_projection_of_last_position:
  assumes wf: "wf_TimeSeriesTransformer n hs m" and ne: "x \<noteq> []"
    and x: "rows_of_length T x" and T: "0 < T"
    and bs: "T \<le> length (position_embedding_table_tst m)"
  shows "\<exists>hid. TimeSeriesTransformer_hidden m x = Inr hid \<and> length hid = length x
           \<and> list_all (\<lambda>h. length h = T) hid
           \<and> TimeSeriesTransformer_forward m x =
               Inr (map (\<lambda>h. Linear_row (output_projection_tst m) (last h)) hid)
           \<and> rows_of_length (nat (forecast_horizon_tst m))
               (map (\<lambda>h. Linear_row (output_projection_tst m) (last h)) hid)"
proof -
  let ?l = "output_projection_tst m"
  have outp: "wf_Linear n (nat (forecast_horizon_tst m)) ?l" and fh: "0 \<le> forecast_horizon_tst m"
    using wf by (simp_all add: wf_TimeSeriesTransformer_def)
  obtain hid where hid: "TimeSeriesTransformer_hidden m x = Inr hid"
    and lhid: "length hid = length x"
    and phid: "list_all (\<lambda>h. length h = T \<and> rows_of_length n h) hid"
    using TimeSeriesTransformer_hidden_ok [OF assms] by blast
  have each: "length h = T" "rows_of_length n h" "h \<noteq> []" if "h \<in> set hid" for h
    using phid that T by (auto simp: list_all_iff)
  have proj: "sequence_err (map (Linear_forward ?l) hid) = Inr (map (map (Linear_row ?l)) hid)"
    by (rule sequence_err_map_ok) (simp add: Linear_forward_shape(1) [OF outp] each)
  have "sequence_err (map (\<lambda>h. select_last (map (Linear_row ?l) h)) hid)
      = Inr (map (\<lambda>h. Linear_row ?l (last h)) hid)"
    by (rule sequence_err_map_ok) (simp add: select_last_map each)
  then have lasts: "sequence_err (map select_last (map (map (Linear_row ?l)) hid))
      = Inr (map (\<lambda>h. Linear_row ?l (last h)) hid)"
    by (simp add: comp_def)
  have rows: "rows_of_length (nat (forecast_horizon_tst m)) (map (\<lambda>h. Linear_row ?l (last h)) hid)"
    by (simp add: rows_of_length_map Linear_row_length [OF outp])
  then have "list_all (\<lambda>r. int (length r) = forecast_horizon_tst m)
      (map (\<lambda>h. Linear_row ?l (last h)) hid)"
    using fh by (simp add: rows_of_length_def list_all_iff)
  then have view: "view_B_n (forecast_horizon_tst m) (map (\<lambda>h. Linear_row ?l (last h)) hid)
      = Inr (map (\<lambda>h. Linear_row ?l (last h)) hid)"
    by (simp add: view_B_n_def)
  have "TimeSeriesTransformer_forward m x = Inr (map (\<lambda>h. Linear_row ?l (last h)) hid)"
    unfolding TimeSeriesTransformer_forward_def hid then_do_Inr proj lasts view ..
  moreover have "list_all (\<lambda>h. length h = T) hid"
    using each(1) by (simp add: list_all_iff)
  ultimately show ?thesis
    using hid lhid rows by blast
qed

theorem forecast_witness:
  "\<exists>m hid. TimeSeriesTransformer_init zero_seed keep_all 4 2 3 = Inr m
     \<and> wf_TimeSeriesTransformer 4 1 m
     \<and> TimeSeriesTransformer_hidden m [[Fin 1, Fin 2]] = Inr hid
     \<and> TimeSeriesTransformer_forward m [[Fin 1, Fin 2]] =
         Inr (map (\<lambda>h. Linear_row (output_projection_tst m) (last h)) hid)
     \<and> length hid = 1
     \<and> rows_of_length 3 (map (\<lambda>h. Linear_row (output_projection_tst m) (last h)) hid)"
proof -
  obtain m where m: "TimeSeriesTransformer_init zero_seed keep_all 4 2 3 = Inr m"
    using TimeSeriesTransformer_init_ok [of 4 2 3 zero_seed keep_all] by auto
  have wf: "wf_TimeSeriesTransformer 4 1 m" and tab: "length (position_embedding_table_tst m) = 2"
    and fh: "forecast_horizon_tst m = 3"
    using TimeSeriesTransformer_init_wf [OF m] by simp_all
  have "\<exists>hid. TimeSeriesTransformer_hidden m [[Fin 1, Fin 2]] = Inr hid
      \<and> length hid = length [[Fin 1, Fin 2 :: fl]]
      \<and> list_all (\<lambda>h. length h = 2) hid
      \<and> TimeSeriesTransformer_forward m [[Fin 1, Fin 2]] =
          Inr (map (\<lambda>h. Linear_row (output_projection_tst m) (last h)) hid)
      \<and> rows_of_length (nat (forecast_horizon_tst m))
          (map (\<lambda>h. Linear_row (output_projection_tst m) (last h)) hid)"
    by (rule forecast_is_projection_of_last_position [OF wf]) (simp_all add: rows_of_length_def tab)
  then show ?thesis
    using m wf fh by auto
qed

section \<open>What the attention calls return\<close>

lemma Attention_attn_weights_module:
  assumes "Attention_attn_weights a x msk = Inr (W, v, a')"
  shows "a' = a\<lparr>causal_mask_att := causal_mask_att a'\<rparr>"
  using assms
  by (auto simp: Attention_attn_weights_def Attention_masked_softmax_def Let_def then_do_eq_Inr
      split: if_splits)

lemma Dropout_forward3_eval: "\<not> training d \<Longrightarrow> Dropout_forward3 d Xs = Xs"
proof -
  assume e: "\<not> training d"
  have "map (\<lambda>(i, r). map (\<lambda>(j, x). Dropout_elem d [h, i, j] x) (enumerate 0 r)) (enumerate 0 X) = X"
    for h X
  proof -
    have "map (\<lambda>(i, r). map (\<lambda>(j, x). Dropout_elem d [h, i, j] x) (enumerate 0 r)) (enumerate 0 X)
        = map (\<lambda>(i, r). map snd (enumerate 0 r)) (enumerate 0 X)"
      using e by (simp add: Dropout_elem_def case_prod_unfold)
    also have "\<dots> = map snd (enumerate 0 X)"
      by (simp add: case_prod_unfold)
    also have "\<dots> = X" by simp
    finally show ?thesis .
  qed
  then have "Dropout_forward3 d Xs = map snd (enumerate 0 Xs)"
    by (simp add: Dropout_forward3_def case_prod_unfold)
  then show ?thesis by simp
qed

lemma softmax_row_single: "softmax_row [Fin a] = [Fin 1]"
  by (simp add: softmax_row_def fsub_def)

lemma attention_example_run:
  "attention [[[Fin 0]]] [[[Fin 0]]] [[[Fin 0]]] None (Some eval_dropout)
     = Inr ([[[Fin 0]]], [[[Fin 1]]])"
  by (simp add: attention_def attention_masked_scores_def attention_scaled_scores_def
      attention_fill_def matmul_nt_def dot_def softmax_def
      softmax_row_single Dropout_forward3_eval eval_dropout_def matmul_def rows_of_length_def
      transpose.simps)

lemma mhab_example_run:
  "MultiHeadAttentionBlock_forward mhab_example [[Fin 0]] [[Fin 0]] [[Fin 0]] None
     = Inr ([[Fin 0]], mhab_example\<lparr>attention_scores_mhab := Some [[[Fin 1]]]\<rparr>)"
proof -
  have lin: "Linear_forward (linear_1x1 1) [[Fin 0]] = Inr [[Fin 0]]"
    by (simp add: Linear_forward_def linear_1x1_def rows_of_length_def Linear_row_def dot_def)
  have split: "split_heads 1 1 [[Fin 0]] = Inr [[[Fin 0]]]"
    by (simp add: split_heads_def rows_of_length_def)
  have merge: "merge_heads 1 1 [[[Fin 0]]] = Inr [[Fin 0]]"
    by (simp add: merge_heads_def cat_last_def)
  show ?thesis
    by (simp add: MultiHeadAttentionBlock_forward_def mhab_example_def lin split merge
        attention_example_run [unfolded eval_dropout_def] eval_dropout_def)
qed

lemma masked_scores_example_open:
  "masked_scores (attention_example False) [[Fin 0], [Fin 0]] None =
     [[Fin 0, Fin 0], [Fin 0, Fin 0]]"
  by (simp add: masked_scores_def tabulate2_def may_attend_def key_open_def feq0_def
      attention_example_def linear_1x1_def Linear_row_def dot_def upt_2')

lemma masked_scores_example_padded:
  "masked_scores (attention_example False) [[Fin 0], [Fin 0]] (Some [Fin 1, Fin 0]) =
     [[Fin 0, NInf], [Fin 0, NInf]]"
  by (simp add: masked_scores_def tabulate2_def may_attend_def key_open_def feq0_def
      attention_example_def linear_1x1_def Linear_row_def dot_def upt_2')

lemma softmax_row_zeros: "softmax_row [Fin 0, Fin 0] = [Fin (1 / 2), Fin (1 / 2)]"
  by (simp add: softmax_row_def fsub_def)

lemma softmax_row_Fin_NInf: "softmax_row [Fin 0, NInf] = [Fin 1, Fin 0]"
  by (simp add: softmax_row_def fsub_def)

lemma value_example:
  "map (Linear_row (value_att (attention_example c))) [[Fin 0], [Fin 0]] = [[Fin 0], [Fin 0]]"
  by (simp add: attention_example_def linear_1x1_def Linear_row_def dot_def)

lemma weights_example_open:
  "Attention_attn_weights (attention_example False) [[Fin 0], [Fin 0]] None =
     Inr ([[Fin (1 / 2), Fin (1 / 2)], [Fin (1 / 2), Fin (1 / 2)]], [[Fin 0], [Fin 0]],
          attention_example False)"
proof -
  have "Attention_attn_weights (attention_example False) [[Fin 0], [Fin 0]] None =
     Inr (softmax (masked_scores (attention_example False) [[Fin 0], [Fin 0]] None),
          map (Linear_row (value_att (attention_example False))) [[Fin 0], [Fin 0]],
          if causal_att (attention_example False)
          then (attention_example False)\<lparr>causal_mask_att := Some (tril_ones (length [[Fin 0], [Fin 0 :: fl]]))\<rparr>
          else attention_example False)"
    by (rule Attention_attn_weights_closed [OF wf_attention_example])
      (simp_all add: rows_of_length_def mask_fits_def)
  moreover have "\<not> causal_att (attention_example False)"
    by (simp add: attention_example_def)
  moreover have "softmax (masked_scores (attention_example False) [[Fin 0], [Fin 0]] None)
      = [[Fin (1 / 2), Fin (1 / 2)], [Fin (1 / 2), Fin (1 / 2)]]"
    by (simp add: masked_scores_example_open softmax_def softmax_row_zeros)
  ultimately show ?thesis
    by (simp only: value_example if_False)
qed

lemma weights_example_padded:
  "Attention_attn_weights (attention_example False) [[Fin 0], [Fin 0]] (Some [Fin 1, Fin 0]) =
     Inr ([[Fin 1, Fin 0], [Fin 1, Fin 0]], [[Fin 0], [Fin 0]], attention_example False)"
proof -
  have "Attention_attn_weights (attention_example False) [[Fin 0], [Fin 0]] (Some [Fin 1, Fin 0]) =
     Inr (softmax (masked_scores (attention_example False) [[Fin 0], [Fin 0]] (Some [Fin 1, Fin 0])),
          map (Linear_row (value_att (attention_example False))) [[Fin 0], [Fin 0]],
          if causal_att (attention_example False)
          then (attention_example False)\<lparr>causal_mask_att := Some (tril_ones (length [[Fin 0], [Fin 0 :: fl]]))\<rparr>
          else attention_example False)"
    by (rule Attention_attn_weights_closed [OF wf_attention_example])
      (simp_all add: rows_of_length_def mask_fits_def)
  moreover have "\<not> causal_att (attention_example False)"
    by (simp add: attention_example_def)
  moreover have "softmax (masked_scores (attention_example False) [[Fin 0], [Fin 0]]
      (Some [Fin 1, Fin 0])) = [[Fin 1, Fin 0], [Fin 1, Fin 0]]"
    by (simp add: masked_scores_example_padded softmax_def softmax_row_Fin_NInf)
  ultimately show ?thesis
    by (simp only: value_example if_False)
qed

lemma transpose_example: "transpose [[Fin 0], [Fin 0 :: fl]] = [[Fin 0, Fin 0]]"
  by (simp add: transpose.simps)

lemma forward_example_open:
  "Attention_forward (attention_example False) [[Fin 0], [Fin 0]] None
     = Inr ([[Fin 0], [Fin 0]], attention_example False)"
  by (simp add: Attention_forward_def weights_example_open matmul_def rows_of_length_def
      transpose_example dot_def)

lemma forward_example_padded:
  "Attention_forward (attention_example False) [[Fin 0], [Fin 0]] (Some [Fin 1, Fin 0])
     = Inr ([[Fin 0], [Fin 0]], attention_example False)"
  by (simp add: Attention_forward_def weights_example_padded matmul_def rows_of_length_def
      transpose_example dot_def)

text \<open>
  C7, as the code has it. The static method \<open>attention\<close> of
  \<open>MultiHeadAttentionBlock\<close> returns both the output and the probability matrix: the
  second component is the softmax of the masked scores after the dropout, the first is
  its product with the values. The forward pass of \<open>MultiHeadAttentionBlock\<close> returns
  the projected output only and leaves the probability matrix in the attribute
  \<open>attention_scores\<close> of the module. The forward pass of \<open>Attention\<close> returns the
  output only (with the module, which differs from the one before in its causal-mask
  buffer at most): the weights are neither returned nor kept.
\<close>

theorem attention_return_values:
  "(attention query key val msk dropout = Inr (out, probs) \<longrightarrow>
      (\<exists>scores. attention_masked_scores query key msk = Inr scores
         \<and> probs = (case dropout of None \<Rightarrow> map softmax scores
                     | Some d \<Rightarrow> Dropout_forward3 d (map softmax scores))
         \<and> length probs = length val
         \<and> sequence_err (map2 matmul probs val) = Inr out))
   \<and> (MultiHeadAttentionBlock_forward m q k v msk = Inr (y, m') \<longrightarrow>
      (\<exists>query' key' val' x probs x'.
         attention query' key' val' msk (Some (dropout_mhab m)) = Inr (x, probs)
         \<and> m' = m\<lparr>attention_scores_mhab := Some probs\<rparr>
         \<and> merge_heads (h_mhab m) (d_k_mhab m) x = Inr x'
         \<and> Linear_forward (w_o_mhab m) x' = Inr y))
   \<and> (Attention_forward a xa mska = Inr (outa, a') \<longrightarrow>
      (\<exists>W va. Attention_attn_weights a xa mska = Inr (W, va, a')
         \<and> matmul W va = Inr outa
         \<and> a' = a\<lparr>causal_mask_att := causal_mask_att a'\<rparr>))"
proof (intro conjI impI)
  assume "attention query key val msk dropout = Inr (out, probs)"
  then show "\<exists>scores. attention_masked_scores query key msk = Inr scores
         \<and> probs = (case dropout of None \<Rightarrow> map softmax scores
                     | Some d \<Rightarrow> Dropout_forward3 d (map softmax scores))
         \<and> length probs = length val
         \<and> sequence_err (map2 matmul probs val) = Inr out"
    unfolding attention_def then_do_eq_Inr by (auto split: if_splits)
next
  assume "MultiHeadAttentionBlock_forward m q k v msk = Inr (y, m')"
  then show "\<exists>query' key' val' x probs x'.
         attention query' key' val' msk (Some (dropout_mhab m)) = Inr (x, probs)
         \<and> m' = m\<lparr>attention_scores_mhab := Some probs\<rparr>
         \<and> merge_heads (h_mhab m) (d_k_mhab m) x = Inr x'
         \<and> Linear_forward (w_o_mhab m) x' = Inr y"
    by (clarsimp simp: MultiHeadAttentionBlock_forward_def then_do_eq_Inr) blast
next
  assume run: "Attention_forward a xa mska = Inr (outa, a')"
  then obtain W va where w: "Attention_attn_weights a xa mska = Inr (W, va, a')"
    and mm: "matmul W va = Inr outa"
    by (auto simp: Attention_forward_def then_do_eq_Inr)
  with Attention_attn_weights_module [OF w]
  show "\<exists>W va. Attention_attn_weights a xa mska = Inr (W, va, a')
         \<and> matmul W va = Inr outa
         \<and> a' = a\<lparr>causal_mask_att := causal_mask_att a'\<rparr>"
    by blast
qed

theorem attention_return_values_witness:
  "attention [[[Fin 0]]] [[[Fin 0]]] [[[Fin 0]]] None (Some eval_dropout)
     = Inr ([[[Fin 0]]], [[[Fin 1]]])
   \<and> (\<exists>scores. attention_masked_scores [[[Fin 0]]] [[[Fin 0]]] None = Inr scores
          \<and> [[[Fin 1]]] = Dropout_forward3 eval_dropout (map softmax scores))
   \<and> MultiHeadAttentionBlock_forward mhab_example [[Fin 0]] [[Fin 0]] [[Fin 0]] None
     = Inr ([[Fin 0]], mhab_example\<lparr>attention_scores_mhab := Some [[[Fin 1]]]\<rparr>)
   \<and> Attention_forward (attention_example False) [[Fin 0], [Fin 0]] None
     = Inr ([[Fin 0], [Fin 0]], attention_example False)
   \<and> (\<exists>W va. Attention_attn_weights (attention_example False) [[Fin 0], [Fin 0]] None
                 = Inr (W, va, attention_example False)
          \<and> matmul W va = Inr [[Fin 0], [Fin 0]])"
proof -
  note inst = attention_return_values
    [of "[[[Fin 0]]]" "[[[Fin 0]]]" "[[[Fin 0]]]" None "Some eval_dropout" "[[[Fin 0]]]"
        "[[[Fin 1]]]" mhab_example "[[Fin 0]]" "[[Fin 0]]" "[[Fin 0]]" "[[Fin 0]]"
        "mhab_example\<lparr>attention_scores_mhab := Some [[[Fin 1]]]\<rparr>"
        "attention_example False" "[[Fin 0], [Fin 0]]" None "[[Fin 0], [Fin 0]]"
        "attention_example False"]
  have a: "\<exists>scores. attention_masked_scores [[[Fin 0]]] [[[Fin 0]]] None = Inr scores
          \<and> [[[Fin 1]]] = Dropout_forward3 eval_dropout (map softmax scores)"
    using inst attention_example_run by auto
  have c: "\<exists>W va. Attention_attn_weights (attention_example False) [[Fin 0], [Fin 0]] None
                 = Inr (W, va, attention_example False)
          \<and> matmul W va = Inr [[Fin 0], [Fin 0]]"
    using inst forward_example_open by blast
  show ?thesis
    using a c attention_example_run mhab_example_run forward_example_open by blast
qed

text \<open>
  The claim fails for \<open>Attention\<close>: two calls on one module and one input, without a
  mask and with the padding mask \<open>[1, 0]\<close>, have different weights and return the very
  same value, so what is returned does not hold the probability matrix.
\<close>

theorem attention_forward_counterexample:
  "Attention_forward (attention_example False) [[Fin 0], [Fin 0]] None
     = Inr ([[Fin 0], [Fin 0]], attention_example False)
   \<and> Attention_forward (attention_example False) [[Fin 0], [Fin 0]] (Some [Fin 1, Fin 0])
     = Inr ([[Fin 0], [Fin 0]], attention_example False)
   \<and> Attention_attn_weights (attention_example False) [[Fin 0], [Fin 0]] None
     = Inr ([[Fin (1 / 2), Fin (1 / 2)], [Fin (1 / 2), Fin (1 / 2)]], [[Fin 0], [Fin 0]],
            attention_example False)
   \<and> Attention_attn_weights (attention_example False) [[Fin 0], [Fin 0]] (Some [Fin 1, Fin 0])
     = Inr ([[Fin 1, Fin 0], [Fin 1, Fin 0]], [[Fin 0], [Fin 0]], attention_example False)"
  by (simp only: forward_example_open forward_example_padded weights_example_open
      weights_example_padded simp_thms)

end
